theory Spec2Isabelle
  imports Main "HOL-Library.Word" "HOL-Library.Sublist"
begin

section \<open>The Redis worker registry of dago-adapters\<close>

text \<open>
  A shallow embedding of \<^verbatim>\<open>pkg/worker_registry/redis/registry.go\<close>.

  The registry is a struct of a Redis client, a logger and a TTL. Its methods talk to
  three collaborators that are not part of the repository: the Redis server (through
  go-redis), the JSON codec of \<^verbatim>\<open>encoding/json\<close> on \<^verbatim>\<open>ports.WorkerInfo\<close>, and the
  wall clock. Each of them is explicit in the model:
  \<^item> the client is a record of the keyspace, of the replies of SCAN and XINFO CONSUMERS,
    and of the commands that fail with an I/O error; a method returns the registry
    with the client and the logger as the method left them;
  \<^item> the codec is a pair of functions that may fail, passed to every method that encodes
    or decodes;
  \<^item> the clock is the argument \<open>now\<close>: one method call reads one instant.
  An error return of the source is a value of the type \<open>error\<close>.
\<close>

subsection \<open>Time\<close>

text \<open>
  \<^verbatim>\<open>time.Time\<close> is an instant in nanoseconds, \<^verbatim>\<open>time.Duration\<close> a signed 64-bit
  count of nanoseconds. \<^verbatim>\<open>time.Since(t)\<close> is \<^verbatim>\<open>time.Now().Sub(t)\<close>, which saturates
  at the least and the greatest duration instead of wrapping around.
\<close>

type_synonym Time = int
type_synonym Duration = int

definition Second :: Duration where
  "Second = 1000000000"

definition maxDuration :: Duration where
  "maxDuration = 2 ^ 63 - 1"

definition minDuration :: Duration where
  "minDuration = - (2 ^ 63)"

definition time_Since :: "Time \<Rightarrow> Time \<Rightarrow> Duration" where
  "time_Since now t =
     (let d = now - t
      in if d > maxDuration then maxDuration
         else if d < minDuration then minDuration
         else d)"

subsection \<open>The types of package ports\<close>

text \<open>
  \<^verbatim>\<open>ports.WorkerType\<close> and \<^verbatim>\<open>ports.WorkerStatus\<close> are string types with named
  constants; a decoded record may carry any other string, which is the last constructor
  of each datatype. The Go type \<^verbatim>\<open>int\<close> of \<^verbatim>\<open>PendingTasks\<close> is a 64-bit word: its
  addition wraps around. Counters that count the iterations of a loop over a slice are
  natural numbers (a slice has fewer than \<open>2 ^ 63\<close> elements).
\<close>

datatype WorkerType = WorkerTypeExecutor | WorkerTypeRouter | WorkerTypeOther string

datatype WorkerStatus =
  WorkerStatusIdle | WorkerStatusBusy | WorkerStatusUnhealthy | WorkerStatusOther string

record WorkerInfo =
  ID :: string
  Type :: WorkerType
  Status :: WorkerStatus
  RegisteredAt :: Time
  LastHeartbeat :: Time
  CurrentTask :: string
  PendingTasks :: "64 word"

record WorkerFilter =
  Types :: "WorkerType list"
  Statuses :: "WorkerStatus list"
  HealthyOnly :: bool

text \<open>The field \<^verbatim>\<open>Type\<close> of \<^verbatim>\<open>ports.WorkerStats\<close> is \<open>StatsType\<close> here.\<close>

record WorkerStats =
  StatsType :: WorkerType
  TotalWorkers :: nat
  IdleWorkers :: nat
  BusyWorkers :: nat
  UnhealthyWorkers :: nat
  TotalPendingTasks :: "64 word"

subsection \<open>The Redis client\<close>

text \<open>
  An error of go-redis is either the sentinel \<^verbatim>\<open>redis.Nil\<close> (no such key) or any other
  error, with its message.
\<close>

datatype redis_error = redis_Nil | Err string

fun Error :: "redis_error \<Rightarrow> string" where
  "Error redis_Nil = ''redis: nil''"
| "Error (Err msg) = msg"

record XInfoConsumer =
  Name :: string
  Pending :: "64 word"

text \<open>
  The keyspace maps a key to its value and the TTL it was last set with. The server
  deletes a key on its own once the TTL has elapsed: in the model that is a keyspace
  without the key. A command on a key for which \<open>getErr\<close>, \<open>setErr\<close> or \<open>delErr\<close>
  holds an error message fails with that error and leaves the keyspace as it was.
  \<open>scanReply\<close> and \<open>xinfoReply\<close> are the server's replies to SCAN (by cursor, pattern
  and count) and to XINFO CONSUMERS (by stream and group).
\<close>

record Client =
  kv :: "string \<rightharpoonup> string \<times> Duration"
  getErr :: "string \<rightharpoonup> string"
  setErr :: "string \<rightharpoonup> string"
  delErr :: "string \<rightharpoonup> string"
  scanReply :: "64 word \<Rightarrow> string \<Rightarrow> nat \<Rightarrow> redis_error + string list \<times> 64 word"
  xinfoReply :: "string \<Rightarrow> string \<Rightarrow> redis_error + XInfoConsumer list"

definition client_Get :: "Client \<Rightarrow> string \<Rightarrow> redis_error + string" where
  "client_Get c key =
     (case getErr c key of
        Some msg \<Rightarrow> Inl (Err msg)
      | None \<Rightarrow> (case kv c key of None \<Rightarrow> Inl redis_Nil | Some (data, _) \<Rightarrow> Inr data))"

definition client_Set ::
  "Client \<Rightarrow> string \<Rightarrow> string \<Rightarrow> Duration \<Rightarrow> redis_error option \<times> Client" where
  "client_Set c key data expiration =
     (case setErr c key of
        Some msg \<Rightarrow> (Some (Err msg), c)
      | None \<Rightarrow> (None, c\<lparr>kv := (kv c)(key \<mapsto> (data, expiration))\<rparr>))"

definition client_Del :: "Client \<Rightarrow> string \<Rightarrow> redis_error option \<times> Client" where
  "client_Del c key =
     (case delErr c key of
        Some msg \<Rightarrow> (Some (Err msg), c)
      | None \<Rightarrow> (None, c\<lparr>kv := (kv c)(key := None)\<rparr>))"

definition client_Scan ::
  "Client \<Rightarrow> 64 word \<Rightarrow> string \<Rightarrow> nat \<Rightarrow> redis_error + string list \<times> 64 word" where
  "client_Scan c cursor pattern count = scanReply c cursor pattern count"

definition client_XInfoConsumers ::
  "Client \<Rightarrow> string \<Rightarrow> string \<Rightarrow> redis_error + XInfoConsumer list" where
  "client_XInfoConsumers c stream grp = xinfoReply c stream grp"

subsection \<open>The codec and the logger\<close>

text \<open>
  \<^verbatim>\<open>json.Marshal\<close> and \<^verbatim>\<open>json.Unmarshal\<close> on a worker record: each returns the error
  message on the left or the result on the right.
\<close>

record Codec =
  Marshal :: "WorkerInfo \<Rightarrow> string + string"
  Unmarshal :: "string \<Rightarrow> string + WorkerInfo"

text \<open>
  A log entry keeps the level, the message and the worker id or key of the entry.
\<close>

datatype Level = InfoLevel | WarnLevel

type_synonym Entry = "Level \<times> string \<times> string"

subsection \<open>The registry\<close>

record Registry =
  client :: Client
  logger :: "Entry list"
  ttl :: Duration

definition logger_Info :: "Registry \<Rightarrow> string \<Rightarrow> string \<Rightarrow> Registry" where
  "logger_Info r msg field = r\<lparr>logger := logger r @ [(InfoLevel, msg, field)]\<rparr>"

definition logger_Warn :: "Registry \<Rightarrow> string \<Rightarrow> string \<Rightarrow> Registry" where
  "logger_Warn r msg field = r\<lparr>logger := logger r @ [(WarnLevel, msg, field)]\<rparr>"

datatype error =
  WorkerNotFound string
  | FailedToGetWorker redis_error
  | FailedToUnmarshal string
  | FailedToMarshal string
  | FailedToRegister redis_error
  | FailedToUnregister redis_error
  | FailedToUpdateHeartbeat redis_error
  | FailedToScan redis_error

definition defaultWorkerTTL :: Duration where
  "defaultWorkerTTL = 30 * Second"

definition workerKeyPrefix :: string where
  "workerKeyPrefix = ''dago:workers:''"

definition executorStreamKey :: string where
  "executorStreamKey = ''executor.work''"

definition routerStreamKey :: string where
  "routerStreamKey = ''router.work''"

definition executorConsumerGroup :: string where
  "executorConsumerGroup = ''executor-workers''"

definition routerConsumerGroup :: string where
  "routerConsumerGroup = ''router-workers''"

definition NewRegistry :: "Client \<Rightarrow> Entry list \<Rightarrow> Registry" where
  "NewRegistry c l = \<lparr>client = c, logger = l, ttl = defaultWorkerTTL\<rparr>"

definition NewRegistryWithTTL :: "Client \<Rightarrow> Duration \<Rightarrow> Entry list \<Rightarrow> Registry" where
  "NewRegistryWithTTL c d l = \<lparr>client = c, logger = l, ttl = d\<rparr>"

definition getWorkerKey :: "string \<Rightarrow> string" where
  "getWorkerKey workerID = workerKeyPrefix @ workerID"

text \<open>\<^verbatim>\<open>strings.Contains(s, substr)\<close>: some suffix of \<open>s\<close> starts with \<open>substr\<close>.\<close>

fun strings_Contains :: "string \<Rightarrow> string \<Rightarrow> bool" where
  "strings_Contains [] substr = (substr = [])"
| "strings_Contains (c # s) substr = (prefix substr (c # s) \<or> strings_Contains s substr)"

definition inferWorkerType :: "string \<Rightarrow> WorkerType" where
  "inferWorkerType workerID =
     (if strings_Contains workerID ''executor'' then WorkerTypeExecutor
      else if strings_Contains workerID ''router'' then WorkerTypeRouter
      else WorkerTypeExecutor)"

subsection \<open>Register, Unregister, GetWorker\<close>

definition Register ::
  "Registry \<Rightarrow> Codec \<Rightarrow> WorkerInfo \<Rightarrow> error option \<times> Registry" where
  "Register r js worker =
     (let key = getWorkerKey (ID worker)
      in case Marshal js worker of
           Inl e \<Rightarrow> (Some (FailedToMarshal e), r)
         | Inr data \<Rightarrow>
             (case client_Set (client r) key data (ttl r) of
                (Some e, c) \<Rightarrow> (Some (FailedToRegister e), r\<lparr>client := c\<rparr>)
              | (None, c) \<Rightarrow>
                  (None, logger_Info (r\<lparr>client := c\<rparr>) ''worker registered'' (ID worker))))"

definition Unregister :: "Registry \<Rightarrow> string \<Rightarrow> error option \<times> Registry" where
  "Unregister r workerID =
     (let key = getWorkerKey workerID
      in case client_Del (client r) key of
           (Some e, c) \<Rightarrow> (Some (FailedToUnregister e), r\<lparr>client := c\<rparr>)
         | (None, c) \<Rightarrow>
             (None, logger_Info (r\<lparr>client := c\<rparr>) ''worker unregistered'' workerID))"

definition GetWorker ::
  "Registry \<Rightarrow> Codec \<Rightarrow> Time \<Rightarrow> string \<Rightarrow> (error + WorkerInfo) \<times> Registry" where
  "GetWorker r js now workerID =
     (let key = getWorkerKey workerID
      in case client_Get (client r) key of
           Inl e \<Rightarrow>
             (if e = redis_Nil then (Inl (WorkerNotFound workerID), r)
              else (Inl (FailedToGetWorker e), r))
         | Inr data \<Rightarrow>
             (case Unmarshal js data of
                Inl e \<Rightarrow> (Inl (FailedToUnmarshal e), r)
              | Inr worker \<Rightarrow>
                  (if time_Since now (LastHeartbeat worker) > ttl r
                   then (Inr (worker\<lparr>Status := WorkerStatusUnhealthy\<rparr>), r)
                   else (Inr worker, r))))"

subsection \<open>Heartbeat\<close>

text \<open>The first consumer of the list with the worker's name gives the pending count.\<close>

fun findConsumer :: "XInfoConsumer list \<Rightarrow> string \<Rightarrow> 64 word" where
  "findConsumer [] workerID = 0"
| "findConsumer (consumer # consumers) workerID =
     (if Name consumer = workerID then Pending consumer
      else findConsumer consumers workerID)"

definition getPendingTasksForWorker ::
  "Registry \<Rightarrow> string \<Rightarrow> WorkerType \<Rightarrow> redis_error + 64 word" where
  "getPendingTasksForWorker r workerID workerType =
     (case (case workerType of
              WorkerTypeExecutor \<Rightarrow> Some (executorStreamKey, executorConsumerGroup)
            | WorkerTypeRouter \<Rightarrow> Some (routerStreamKey, routerConsumerGroup)
            | WorkerTypeOther _ \<Rightarrow> None) of
        None \<Rightarrow> Inr 0
      | Some (streamKey, consumerGroup) \<Rightarrow>
          (case client_XInfoConsumers (client r) streamKey consumerGroup of
             Inl e \<Rightarrow> (if strings_Contains (Error e) ''NOGROUP'' then Inr 0 else Inl e)
           | Inr consumers \<Rightarrow> Inr (findConsumer consumers workerID)))"

text \<open>
  Any error of \<open>GetWorker\<close> takes the first branch. The new record has no pending count
  yet: the zero value of the Go struct.
\<close>

definition Heartbeat ::
  "Registry \<Rightarrow> Codec \<Rightarrow> Time \<Rightarrow> string \<Rightarrow> WorkerStatus \<Rightarrow> string \<Rightarrow> error option \<times> Registry"
  where
  "Heartbeat r js now workerID status currentTask =
     (let key = getWorkerKey workerID;
          (worker, r1) =
            (case GetWorker r js now workerID of
               (Inl e, r') \<Rightarrow>
                 (\<lparr>ID = workerID, Type = inferWorkerType workerID, Status = status,
                   RegisteredAt = now, LastHeartbeat = now, CurrentTask = currentTask,
                   PendingTasks = 0\<rparr>,
                  logger_Warn r' ''heartbeat for unregistered worker, auto-registering''
                    workerID)
             | (Inr w, r') \<Rightarrow>
                 (w\<lparr>Status := status, LastHeartbeat := now, CurrentTask := currentTask\<rparr>,
                  r'));
          (worker, r2) =
            (case getPendingTasksForWorker r1 workerID (Type worker) of
               Inl e \<Rightarrow> (worker, logger_Warn r1 ''failed to get pending tasks'' workerID)
             | Inr pendingTasks \<Rightarrow> (worker\<lparr>PendingTasks := pendingTasks\<rparr>, r1))
      in case Marshal js worker of
           Inl e \<Rightarrow> (Some (FailedToMarshal e), r2)
         | Inr data \<Rightarrow>
             (case client_Set (client r2) key data (ttl r2) of
                (Some e, c) \<Rightarrow> (Some (FailedToUpdateHeartbeat e), r2\<lparr>client := c\<rparr>)
              | (None, c) \<Rightarrow> (None, r2\<lparr>client := c\<rparr>)))"

subsection \<open>Scanning the keys\<close>

text \<open>
  The loop of \<^verbatim>\<open>scanKeys\<close> ends when the server returns the cursor 0; a server that
  never does keeps it running, which is the value \<open>None\<close>.
\<close>

partial_function (option) scanLoop ::
  "Client \<Rightarrow> string \<Rightarrow> 64 word \<Rightarrow> string list \<Rightarrow> (redis_error + string list) option" where
  "scanLoop c pattern cursor keys =
     (case client_Scan c cursor pattern 100 of
        Inl e \<Rightarrow> Some (Inl e)
      | Inr (scanKeys, cursor') \<Rightarrow>
          (if cursor' = 0 then Some (Inr (keys @ scanKeys))
           else scanLoop c pattern cursor' (keys @ scanKeys)))"

definition scanKeys :: "Registry \<Rightarrow> string \<Rightarrow> (redis_error + string list) option" where
  "scanKeys r pattern = scanLoop (client r) pattern 0 []"

subsection \<open>ListWorkers and GetWorkerStats\<close>

fun typeMatch :: "WorkerType \<Rightarrow> WorkerType list \<Rightarrow> bool" where
  "typeMatch wt [] = False"
| "typeMatch wt (t # ts) = (if wt = t then True else typeMatch wt ts)"

fun statusMatch :: "WorkerStatus \<Rightarrow> WorkerStatus list \<Rightarrow> bool" where
  "statusMatch ws [] = False"
| "statusMatch ws (s # ss) = (if ws = s then True else statusMatch ws ss)"

definition matchesFilter :: "WorkerInfo \<Rightarrow> WorkerFilter \<Rightarrow> bool \<Rightarrow> bool" where
  "matchesFilter worker flt isHealthy =
     (if length (Types flt) > 0 \<and> \<not> typeMatch (Type worker) (Types flt) then False
      else if length (Statuses flt) > 0 \<and> \<not> statusMatch (Status worker) (Statuses flt)
      then False
      else if HealthyOnly flt \<and> \<not> isHealthy then False
      else True)"

text \<open>The body of the loop of \<^verbatim>\<open>ListWorkers\<close>, on the keys the scan returned.\<close>

fun listLoop ::
  "Registry \<Rightarrow> Codec \<Rightarrow> Time \<Rightarrow> WorkerFilter \<Rightarrow> string list \<Rightarrow> WorkerInfo list
   \<Rightarrow> WorkerInfo list \<times> Registry" where
  "listLoop r js now flt [] workers = (workers, r)"
| "listLoop r js now flt (key # keys) workers =
     (case client_Get (client r) key of
        Inl e \<Rightarrow>
          (if e = redis_Nil then listLoop r js now flt keys workers
           else listLoop (logger_Warn r ''failed to get worker'' key) js now flt keys workers)
      | Inr data \<Rightarrow>
          (case Unmarshal js data of
             Inl e \<Rightarrow>
               listLoop (logger_Warn r ''failed to unmarshal worker'' key) js now flt keys
                 workers
           | Inr w \<Rightarrow>
               (let isHealthy = (time_Since now (LastHeartbeat w) \<le> ttl r);
                    worker = (if \<not> isHealthy then w\<lparr>Status := WorkerStatusUnhealthy\<rparr> else w)
                in if \<not> matchesFilter worker flt isHealthy
                   then listLoop r js now flt keys workers
                   else listLoop r js now flt keys (workers @ [worker]))))"

definition ListWorkers ::
  "Registry \<Rightarrow> Codec \<Rightarrow> Time \<Rightarrow> WorkerFilter \<Rightarrow> ((error + WorkerInfo list) \<times> Registry) option"
  where
  "ListWorkers r js now flt =
     (case scanKeys r (workerKeyPrefix @ ''*'') of
        None \<Rightarrow> None
      | Some (Inl e) \<Rightarrow> Some (Inl (FailedToScan e), r)
      | Some (Inr keys) \<Rightarrow>
          (case listLoop r js now flt keys [] of (workers, r') \<Rightarrow> Some (Inr workers, r')))"

fun statsLoop :: "WorkerInfo list \<Rightarrow> WorkerStats \<Rightarrow> WorkerStats" where
  "statsLoop [] stats = stats"
| "statsLoop (worker # workers) stats =
     (let stats1 =
        (case Status worker of
           WorkerStatusIdle \<Rightarrow> stats\<lparr>IdleWorkers := IdleWorkers stats + 1\<rparr>
         | WorkerStatusBusy \<Rightarrow> stats\<lparr>BusyWorkers := BusyWorkers stats + 1\<rparr>
         | WorkerStatusUnhealthy \<Rightarrow> stats\<lparr>UnhealthyWorkers := UnhealthyWorkers stats + 1\<rparr>
         | WorkerStatusOther _ \<Rightarrow> stats)
      in statsLoop workers
           (stats1\<lparr>TotalPendingTasks := TotalPendingTasks stats1 + PendingTasks worker\<rparr>))"

definition GetWorkerStats ::
  "Registry \<Rightarrow> Codec \<Rightarrow> Time \<Rightarrow> WorkerType \<Rightarrow> ((error + WorkerStats) \<times> Registry) option"
  where
  "GetWorkerStats r js now workerType =
     (let flt = \<lparr>Types = [workerType], Statuses = [], HealthyOnly = False\<rparr>
      in case ListWorkers r js now flt of
           None \<Rightarrow> None
         | Some (Inl err, r') \<Rightarrow> Some (Inl err, r')
         | Some (Inr workers, r') \<Rightarrow>
             Some (Inr (statsLoop workers
                          \<lparr>StatsType = workerType, TotalWorkers = length workers,
                            IdleWorkers = 0, BusyWorkers = 0, UnhealthyWorkers = 0,
                            TotalPendingTasks = 0\<rparr>), r'))"

subsection \<open>CleanupStaleWorkers\<close>

text \<open>
  The source returns a count and an error side by side; so does the model. A key whose
  read or decoding fails is passed over without a log entry. A failed delete is logged
  and the loop goes on.
\<close>

fun cleanupLoop ::
  "Registry \<Rightarrow> Codec \<Rightarrow> Time \<Rightarrow> Duration \<Rightarrow> string list \<Rightarrow> nat \<Rightarrow> nat \<times> Registry" where
  "cleanupLoop r js now timeout [] cleaned = (cleaned, r)"
| "cleanupLoop r js now timeout (key # keys) cleaned =
     (case client_Get (client r) key of
        Inl e \<Rightarrow> cleanupLoop r js now timeout keys cleaned
      | Inr data \<Rightarrow>
          (case Unmarshal js data of
             Inl e \<Rightarrow> cleanupLoop r js now timeout keys cleaned
           | Inr worker \<Rightarrow>
               (if time_Since now (LastHeartbeat worker) > timeout
                then (case client_Del (client r) key of
                        (Some e, c) \<Rightarrow>
                          cleanupLoop
                            (logger_Warn (r\<lparr>client := c\<rparr>) ''failed to delete stale worker''
                               (ID worker))
                            js now timeout keys cleaned
                      | (None, c) \<Rightarrow>
                          cleanupLoop
                            (logger_Info (r\<lparr>client := c\<rparr>) ''cleaned up stale worker''
                               (ID worker))
                            js now timeout keys (cleaned + 1))
                else cleanupLoop r js now timeout keys cleaned)))"

definition CleanupStaleWorkers ::
  "Registry \<Rightarrow> Codec \<Rightarrow> Time \<Rightarrow> Duration \<Rightarrow> ((nat \<times> error option) \<times> Registry) option" where
  "CleanupStaleWorkers r js now timeout =
     (case scanKeys r (workerKeyPrefix @ ''*'') of
        None \<Rightarrow> None
      | Some (Inl e) \<Rightarrow> Some ((0, Some (FailedToScan e)), r)
      | Some (Inr keys) \<Rightarrow>
          (case cleanupLoop r js now timeout keys 0 of
             (cleaned, r') \<Rightarrow> Some ((cleaned, None), r')))"

subsection \<open>Notions used in the statements\<close>

text \<open>
  The record that \<open>Heartbeat\<close> builds for an id whose record it could not read: the
  struct literal of the source, with the pending count of \<open>getPendingTasksForWorker\<close>
  where that call succeeds.
\<close>

definition autoRegistered ::
  "Registry \<Rightarrow> Time \<Rightarrow> string \<Rightarrow> WorkerStatus \<Rightarrow> string \<Rightarrow> WorkerInfo" where
  "autoRegistered r now workerID status currentTask =
     \<lparr>ID = workerID, Type = inferWorkerType workerID, Status = status,
      RegisteredAt = now, LastHeartbeat = now, CurrentTask = currentTask,
      PendingTasks =
        (case getPendingTasksForWorker r workerID (inferWorkerType workerID) of
           Inl e \<Rightarrow> 0
         | Inr pendingTasks \<Rightarrow> pendingTasks)\<rparr>"

text \<open>
  What \<open>ListWorkers\<close> adds to its result for one key, read off the body of its loop.
\<close>

definition listEntry ::
  "Registry \<Rightarrow> Codec \<Rightarrow> Time \<Rightarrow> WorkerFilter \<Rightarrow> string \<Rightarrow> WorkerInfo option" where
  "listEntry r js now flt key =
     (case client_Get (client r) key of
        Inl e \<Rightarrow> None
      | Inr data \<Rightarrow>
          (case Unmarshal js data of
             Inl e \<Rightarrow> None
           | Inr w \<Rightarrow>
               (let isHealthy = (time_Since now (LastHeartbeat w) \<le> ttl r);
                    worker = (if \<not> isHealthy then w\<lparr>Status := WorkerStatusUnhealthy\<rparr> else w)
                in if matchesFilter worker flt isHealthy then Some worker else None)))"

text \<open>
  What the sweep does to one key, read off the body of its loop: a key is stale when its
  read and its decoding succeed and the heartbeat age exceeds the timeout; the sweep
  removes a stale key unless its delete fails; \<open>swept\<close> is the client after the sweep of
  a list of keys.
\<close>

definition isStale :: "Client \<Rightarrow> Codec \<Rightarrow> Time \<Rightarrow> Duration \<Rightarrow> string \<Rightarrow> bool" where
  "isStale c js now timeout key =
     (case client_Get c key of
        Inl e \<Rightarrow> False
      | Inr data \<Rightarrow>
          (case Unmarshal js data of
             Inl e \<Rightarrow> False
           | Inr worker \<Rightarrow> time_Since now (LastHeartbeat worker) > timeout))"

definition sweeps :: "Client \<Rightarrow> Codec \<Rightarrow> Time \<Rightarrow> Duration \<Rightarrow> string \<Rightarrow> bool" where
  "sweeps c js now timeout key = (isStale c js now timeout key \<and> delErr c key = None)"

definition swept :: "Client \<Rightarrow> Codec \<Rightarrow> Time \<Rightarrow> Duration \<Rightarrow> string list \<Rightarrow> Client" where
  "swept c js now timeout keys =
     c\<lparr>kv := (\<lambda>k. if k \<in> set keys \<and> sweeps c js now timeout k then None else kv c k)\<rparr>"

subsection \<open>Inputs to run the model on\<close>

text \<open>
  A codec given by a table of encoded records, and a client with an empty keyspace on
  which no command fails: the concrete instances below are built from them.
\<close>

definition tableCodec :: "(string \<times> WorkerInfo) list \<Rightarrow> Codec" where
  "tableCodec tab =
     \<lparr>Marshal = (\<lambda>w. case find (\<lambda>p. snd p = w) tab of
                        Some p \<Rightarrow> Inr (fst p)
                      | None \<Rightarrow> Inl ''json: unsupported value''),
      Unmarshal = (\<lambda>data. case map_of tab data of
                        Some w \<Rightarrow> Inr w
                      | None \<Rightarrow> Inl ''unexpected end of JSON input'')\<rparr>"

definition emptyClient :: Client where
  "emptyClient =
     \<lparr>kv = Map.empty, getErr = Map.empty, setErr = Map.empty, delErr = Map.empty,
      scanReply = (\<lambda>cursor pattern count. Inr ([], 0)),
      xinfoReply = (\<lambda>stream grp. Inl (Err ''NOGROUP No such key or consumer group''))\<rparr>"

definition unnamedWorker :: WorkerInfo where
  "unnamedWorker =
     \<lparr>ID = [], Type = WorkerTypeOther ''gpu'', Status = WorkerStatusIdle,
      RegisteredAt = 0, LastHeartbeat = 0, CurrentTask = [], PendingTasks = 0\<rparr>"

definition idleWorker :: WorkerInfo where
  "idleWorker =
     \<lparr>ID = ''executor-1'', Type = WorkerTypeExecutor, Status = WorkerStatusIdle,
      RegisteredAt = 0, LastHeartbeat = 0, CurrentTask = [], PendingTasks = 0\<rparr>"

definition staleRegistry :: Registry where
  "staleRegistry =
     NewRegistry (emptyClient\<lparr>kv := [''dago:workers:executor-1'' \<mapsto>
                                        (''json(executor-1)'', 30000000000)]\<rparr>) []"

definition busyWorker :: WorkerInfo where
  "busyWorker =
     \<lparr>ID = ''executor-worker-x'', Type = WorkerTypeExecutor, Status = WorkerStatusBusy,
      RegisteredAt = 1000, LastHeartbeat = 1000, CurrentTask = ''task-7'', PendingTasks = 0\<rparr>"

definition corruptRegistry :: Registry where
  "corruptRegistry =
     NewRegistry (emptyClient\<lparr>kv := [''dago:workers:executor-worker-x'' \<mapsto>
                                        (''{'', 30000000000)]\<rparr>) []"

definition unreachableRegistry :: Registry where
  "unreachableRegistry =
     NewRegistry (emptyClient\<lparr>getErr := [''dago:workers:executor-worker-x'' \<mapsto>
                                            ''i/o timeout'']\<rparr>) []"

text \<open>
  Four workers at the instant of 100 seconds, under the TTL of 30 seconds: \<open>executor-a\<close>
  last seen 29 seconds ago, \<open>router-b\<close> 5 seconds ago, \<open>executor-c\<close> 31 seconds ago and
  \<open>executor-d\<close> 10 seconds ago. The server returns their keys in two pages.
\<close>

definition workerA :: WorkerInfo where
  "workerA =
     \<lparr>ID = ''executor-a'', Type = WorkerTypeExecutor, Status = WorkerStatusIdle,
      RegisteredAt = 0, LastHeartbeat = 71000000000, CurrentTask = [], PendingTasks = 2\<rparr>"

definition workerB :: WorkerInfo where
  "workerB =
     \<lparr>ID = ''router-b'', Type = WorkerTypeRouter, Status = WorkerStatusBusy,
      RegisteredAt = 0, LastHeartbeat = 95000000000, CurrentTask = ''task-3'',
      PendingTasks = 3\<rparr>"

definition workerC :: WorkerInfo where
  "workerC =
     \<lparr>ID = ''executor-c'', Type = WorkerTypeExecutor, Status = WorkerStatusBusy,
      RegisteredAt = 0, LastHeartbeat = 69000000000, CurrentTask = ''task-5'',
      PendingTasks = 5\<rparr>"

definition workerD :: WorkerInfo where
  "workerD =
     \<lparr>ID = ''executor-d'', Type = WorkerTypeExecutor, Status = WorkerStatusBusy,
      RegisteredAt = 0, LastHeartbeat = 90000000000, CurrentTask = ''task-9'',
      PendingTasks = 0\<rparr>"

definition fleetCodec :: Codec where
  "fleetCodec =
     tableCodec [(''json(a)'', workerA), (''json(b)'', workerB), (''json(c)'', workerC),
                 (''json(d)'', workerD)]"

definition fleetKeys :: "string list" where
  "fleetKeys = [''dago:workers:executor-a'', ''dago:workers:router-b'',
                ''dago:workers:executor-c'', ''dago:workers:executor-d'']"

definition fleetClient :: Client where
  "fleetClient =
     emptyClient
       \<lparr>kv := [''dago:workers:executor-a'' \<mapsto> (''json(a)'', 30000000000),
               ''dago:workers:router-b'' \<mapsto> (''json(b)'', 30000000000),
               ''dago:workers:executor-c'' \<mapsto> (''json(c)'', 30000000000),
               ''dago:workers:executor-d'' \<mapsto> (''json(d)'', 30000000000)],
        scanReply := (\<lambda>cursor pattern count.
           if cursor = 0
           then Inr ([''dago:workers:executor-a'', ''dago:workers:router-b''], 7)
           else Inr ([''dago:workers:executor-c'', ''dago:workers:executor-d''], 0))\<rparr>"

definition fleet :: Registry where
  "fleet = NewRegistry fleetClient []"

definition fleetFailing :: Registry where
  "fleetFailing =
     NewRegistry (fleetClient\<lparr>delErr := [''dago:workers:executor-c'' \<mapsto> ''i/o timeout'']\<rparr>) []"

definition scanFailing :: Registry where
  "scanFailing =
     NewRegistry
       (emptyClient\<lparr>scanReply := (\<lambda>cursor pattern count. Inl (Err ''i/o timeout''))\<rparr>) []"

text \<open>
  \<^verbatim>\<open>encoding/json\<close> writes the replacement character U+FFFD for a byte of a string
  that is not valid UTF-8, so an encoding need not decode to the record it was made
  from. A codec given by a table of records, each with its encoding and with the record
  that the encoding decodes to; and a worker whose id ends in the byte FF.
\<close>

definition coercingCodec :: "(WorkerInfo \<times> string \<times> WorkerInfo) list \<Rightarrow> Codec" where
  "coercingCodec tab =
     \<lparr>Marshal = (\<lambda>w. case find (\<lambda>t. fst t = w) tab of
                        Some t \<Rightarrow> Inr (fst (snd t))
                      | None \<Rightarrow> Inl ''json: unsupported value''),
      Unmarshal = (\<lambda>data. case find (\<lambda>t. fst (snd t) = data) tab of
                        Some t \<Rightarrow> Inr (snd (snd t))
                      | None \<Rightarrow> Inl ''unexpected end of JSON input'')\<rparr>"

definition rawWorker :: WorkerInfo where
  "rawWorker =
     \<lparr>ID = ''executor-'' @ [CHR 0xFF], Type = WorkerTypeExecutor, Status = WorkerStatusIdle,
      RegisteredAt = 0, LastHeartbeat = 0, CurrentTask = [], PendingTasks = 0\<rparr>"

definition replacedWorker :: WorkerInfo where
  "replacedWorker = rawWorker\<lparr>ID := ''executor-'' @ [CHR 0xEF, CHR 0xBF, CHR 0xBD]\<rparr>"

definition utf8Codec :: Codec where
  "utf8Codec = coercingCodec [(rawWorker, ''json(executor-fffd)'', replacedWorker)]"

section \<open>Properties\<close>

subsection \<open>Type inference\<close>

lemma strings_Contains_sublist: "strings_Contains s substr \<longleftrightarrow> sublist substr s"
  by (induction s) (simp_all add: sublist_Cons_right)

lemma strings_Contains_iff:
  "strings_Contains s substr \<longleftrightarrow> (\<exists>ps ss. s = ps @ substr @ ss)"
  by (simp add: strings_Contains_sublist sublist_def)

text \<open>
  C10. The marker \<open>executor\<close> is looked for before the marker \<open>router\<close>: an id that
  contains \<open>executor\<close> is inferred as Executor, also when it contains \<open>router\<close>, and the
  ids inferred as Router are exactly those that contain \<open>router\<close> and not \<open>executor\<close>.
\<close>

theorem inferWorkerType_order:
  "((\<exists>ps ss. workerID = ps @ ''executor'' @ ss) \<longrightarrow>
      inferWorkerType workerID = WorkerTypeExecutor) \<and>
   (inferWorkerType workerID = WorkerTypeRouter \<longleftrightarrow>
      (\<exists>ps ss. workerID = ps @ ''router'' @ ss) \<and>
      \<not> (\<exists>ps ss. workerID = ps @ ''executor'' @ ss))"
  unfolding strings_Contains_iff [symmetric] by (simp add: inferWorkerType_def)

theorem inferWorkerType_order_witness:
  "(\<exists>ps ss. ''router-executor-7'' = ps @ ''executor'' @ ss) \<and>
   inferWorkerType ''router-executor-7'' = WorkerTypeExecutor \<and>
   inferWorkerType ''router-7'' = WorkerTypeRouter \<and>
   (\<exists>ps ss. ''router-7'' = ps @ ''router'' @ ss) \<and>
   \<not> (\<exists>ps ss. ''router-7'' = ps @ ''executor'' @ ss)"
proof -
  have a: "''router-executor-7'' = ''router-'' @ ''executor'' @ ''-7''" by simp
  then have e: "\<exists>ps ss. ''router-executor-7'' = ps @ ''executor'' @ ss" by blast
  have r: "inferWorkerType ''router-7'' = WorkerTypeRouter"
    by (simp add: inferWorkerType_def)
  from e r show ?thesis
    using inferWorkerType_order [of "''router-executor-7''"]
      inferWorkerType_order [of "''router-7''"] by blast
qed

subsection \<open>Evaluating the concrete inputs\<close>

lemma key1: "getWorkerKey ''executor-1'' = ''dago:workers:executor-1''"
  by (simp add: getWorkerKey_def workerKeyPrefix_def)

lemma stale_facts:
  "getErr (client staleRegistry) ''dago:workers:executor-1'' = None"
  "kv (client staleRegistry) ''dago:workers:executor-1'' = Some (''json(executor-1)'', 30000000000)"
  "ttl staleRegistry = 30000000000"
  by (simp_all add: staleRegistry_def NewRegistry_def emptyClient_def defaultWorkerTTL_def Second_def)

lemma empty_facts:
  "getErr (client (NewRegistry emptyClient [])) k = None"
  "kv (client (NewRegistry emptyClient [])) k = None"
  by (simp_all add: NewRegistry_def emptyClient_def)

lemma table1: "Unmarshal (tableCodec [(''json(executor-1)'', idleWorker)]) ''json(executor-1)'' = Inr idleWorker"
  by (simp add: tableCodec_def)

lemma age31: "time_Since 31000000000 (LastHeartbeat idleWorker) = 31000000000"
  by (simp add: time_Since_def idleWorker_def maxDuration_def minDuration_def)

subsection \<open>Register\<close>

text \<open>
  C3 as the specification states it: a record with an empty id or an unknown type is not
  written. It fails: the record with the empty id and the type \<open>gpu\<close> is registered
  and stored under the bare key prefix.
\<close>

theorem Register_unvalidated_counterexample:
  "fst (Register (NewRegistry emptyClient []) (tableCodec [(''json(gpu)'', unnamedWorker)])
          unnamedWorker) = None \<and>
   kv (client (snd (Register (NewRegistry emptyClient [])
                      (tableCodec [(''json(gpu)'', unnamedWorker)]) unnamedWorker)))
     ''dago:workers:'' = Some (''json(gpu)'', 30000000000) \<and>
   ID unnamedWorker = '''' \<and> Type unnamedWorker = WorkerTypeOther ''gpu''"
  by (simp add: Register_def NewRegistry_def emptyClient_def tableCodec_def unnamedWorker_def
      client_Set_def getWorkerKey_def workerKeyPrefix_def logger_Info_def defaultWorkerTTL_def
      Second_def)

text \<open>
  C3, amended. \<open>Register\<close> checks neither the id nor the type: for any record, when the
  encoding and the write to the store succeed, it succeeds and the keyspace holds the
  encoded record under the key of the id with the configured TTL; when it fails, the
  registry is as it was.
\<close>

theorem Register_no_validation:
  "(Marshal js worker = Inr data \<and> setErr (client r) (getWorkerKey (ID worker)) = None \<longrightarrow>
      fst (Register r js worker) = None \<and>
      kv (client (snd (Register r js worker))) =
        (kv (client r))(getWorkerKey (ID worker) \<mapsto> (data, ttl r))) \<and>
   (fst (Register r js worker) \<noteq> None \<longrightarrow> snd (Register r js worker) = r)"
  by (auto simp: Register_def client_Set_def logger_Info_def split: sum.splits option.splits)

theorem Register_no_validation_witness:
  "Marshal (tableCodec [(''json(gpu)'', unnamedWorker)]) unnamedWorker = Inr ''json(gpu)'' \<and>
   setErr (client (NewRegistry emptyClient [])) (getWorkerKey (ID unnamedWorker)) = None \<and>
   fst (Register (NewRegistry emptyClient []) (tableCodec [(''json(gpu)'', unnamedWorker)])
          unnamedWorker) = None \<and>
   fst (Register (NewRegistry (emptyClient\<lparr>setErr := [''dago:workers:'' \<mapsto> ''i/o timeout'']\<rparr>) [])
          (tableCodec [(''json(gpu)'', unnamedWorker)]) unnamedWorker) \<noteq> None \<and>
   snd (Register (NewRegistry (emptyClient\<lparr>setErr := [''dago:workers:'' \<mapsto> ''i/o timeout'']\<rparr>) [])
          (tableCodec [(''json(gpu)'', unnamedWorker)]) unnamedWorker) =
     NewRegistry (emptyClient\<lparr>setErr := [''dago:workers:'' \<mapsto> ''i/o timeout'']\<rparr>) []"
proof -
  have m: "Marshal (tableCodec [(''json(gpu)'', unnamedWorker)]) unnamedWorker = Inr ''json(gpu)''"
    by (simp add: tableCodec_def)
  have s: "setErr (client (NewRegistry emptyClient [])) (getWorkerKey (ID unnamedWorker)) = None"
    by (simp add: NewRegistry_def emptyClient_def)
  have f: "fst (Register (NewRegistry (emptyClient\<lparr>setErr := [''dago:workers:'' \<mapsto> ''i/o timeout'']\<rparr>) [])
          (tableCodec [(''json(gpu)'', unnamedWorker)]) unnamedWorker) \<noteq> None"
    by (simp add: Register_def NewRegistry_def emptyClient_def tableCodec_def unnamedWorker_def
      client_Set_def getWorkerKey_def workerKeyPrefix_def)
  from m s f show ?thesis
    using Register_no_validation [of "tableCodec [(''json(gpu)'', unnamedWorker)]" unnamedWorker
        "''json(gpu)''" "NewRegistry emptyClient []"]
      Register_no_validation [of "tableCodec [(''json(gpu)'', unnamedWorker)]" unnamedWorker
        "''json(gpu)''" "NewRegistry (emptyClient\<lparr>setErr := [''dago:workers:'' \<mapsto> ''i/o timeout'']\<rparr>) []"]
    by blast
qed

subsection \<open>GetWorker\<close>

lemma GetWorker_snd: "snd (GetWorker r js now workerID) = r"
  by (simp add: GetWorker_def Let_def split: sum.split)

lemma GetWorker_absent:
  "getErr (client r) (getWorkerKey workerID) = None \<Longrightarrow>
   kv (client r) (getWorkerKey workerID) = None \<Longrightarrow>
   fst (GetWorker r js now workerID) = Inl (WorkerNotFound workerID)"
  by (simp add: GetWorker_def client_Get_def)

lemma GetWorker_present:
  "getErr (client r) (getWorkerKey workerID) = None \<Longrightarrow>
   kv (client r) (getWorkerKey workerID) = Some (data, d) \<Longrightarrow>
   Unmarshal js data = Inr worker \<Longrightarrow>
   fst (GetWorker r js now workerID) =
     Inr (if time_Since now (LastHeartbeat worker) > ttl r
          then worker\<lparr>Status := WorkerStatusUnhealthy\<rparr> else worker)"
  by (simp add: GetWorker_def client_Get_def)

lemma GetWorker_Inr:
  assumes "fst (GetWorker r js now workerID) = Inr w"
  shows "\<exists>data d worker. getErr (client r) (getWorkerKey workerID) = None \<and>
           kv (client r) (getWorkerKey workerID) = Some (data, d) \<and>
           Unmarshal js data = Inr worker \<and>
           w = (if time_Since now (LastHeartbeat worker) > ttl r
                then worker\<lparr>Status := WorkerStatusUnhealthy\<rparr> else worker)"
proof (cases "client_Get (client r) (getWorkerKey workerID)")
  case (Inl e)
  with assms show ?thesis by (simp add: GetWorker_def split: if_splits)
next
  case (Inr data)
  then obtain d where g: "getErr (client r) (getWorkerKey workerID) = None"
    and k: "kv (client r) (getWorkerKey workerID) = Some (data, d)"
    by (auto simp: client_Get_def split: option.splits)
  show ?thesis
  proof (cases "Unmarshal js data")
    case (Inl e)
    with Inr assms show ?thesis by (simp add: GetWorker_def)
  next
    case u: (Inr worker)
    from GetWorker_present [OF g k u, of now] assms g k u show ?thesis by simp
  qed
qed

text \<open>
  C4. \<open>GetWorker\<close> leaves the registry, and so the store, as it was. When the key is
  absent (no registration, or the store has expired it) the result is the error
  \<open>WorkerNotFound\<close>. When the stored record has a heartbeat age above the TTL the result
  is that record with the status Unhealthy. Every record that \<open>GetWorker\<close> returns is the
  stored record with the status recomputed in this way, so a record older than the TTL
  never comes back Idle or Busy.
\<close>

theorem GetWorker_expired:
  "snd (GetWorker r js now workerID) = r \<and>
   (getErr (client r) (getWorkerKey workerID) = None \<and>
    kv (client r) (getWorkerKey workerID) = None \<longrightarrow>
      fst (GetWorker r js now workerID) = Inl (WorkerNotFound workerID)) \<and>
   (getErr (client r) (getWorkerKey workerID) = None \<and>
    kv (client r) (getWorkerKey workerID) = Some (data, d) \<and>
    Unmarshal js data = Inr worker \<and> time_Since now (LastHeartbeat worker) > ttl r \<longrightarrow>
      fst (GetWorker r js now workerID) = Inr (worker\<lparr>Status := WorkerStatusUnhealthy\<rparr>)) \<and>
   (\<forall>w. fst (GetWorker r js now workerID) = Inr w \<longrightarrow>
      (\<exists>data' d' worker'. kv (client r) (getWorkerKey workerID) = Some (data', d') \<and>
         Unmarshal js data' = Inr worker' \<and>
         w = (if time_Since now (LastHeartbeat worker') > ttl r
              then worker'\<lparr>Status := WorkerStatusUnhealthy\<rparr> else worker')))"
proof (intro conjI impI allI)
  show "snd (GetWorker r js now workerID) = r" by (rule GetWorker_snd)
next
  assume "getErr (client r) (getWorkerKey workerID) = None \<and>
    kv (client r) (getWorkerKey workerID) = None"
  then show "fst (GetWorker r js now workerID) = Inl (WorkerNotFound workerID)"
    by (simp add: GetWorker_absent)
next
  assume a: "getErr (client r) (getWorkerKey workerID) = None \<and>
    kv (client r) (getWorkerKey workerID) = Some (data, d) \<and>
    Unmarshal js data = Inr worker \<and> time_Since now (LastHeartbeat worker) > ttl r"
  from a have "fst (GetWorker r js now workerID) =
     Inr (if time_Since now (LastHeartbeat worker) > ttl r
          then worker\<lparr>Status := WorkerStatusUnhealthy\<rparr> else worker)"
    using GetWorker_present [of r workerID data d js worker now] by blast
  with a show "fst (GetWorker r js now workerID) = Inr (worker\<lparr>Status := WorkerStatusUnhealthy\<rparr>)"
    by simp
next
  fix w assume "fst (GetWorker r js now workerID) = Inr w"
  from GetWorker_Inr [OF this]
  show "\<exists>data' d' worker'. kv (client r) (getWorkerKey workerID) = Some (data', d') \<and>
         Unmarshal js data' = Inr worker' \<and>
         w = (if time_Since now (LastHeartbeat worker') > ttl r
              then worker'\<lparr>Status := WorkerStatusUnhealthy\<rparr> else worker')"
    by blast
qed

theorem GetWorker_expired_witness:
  "fst (GetWorker (NewRegistry emptyClient []) (tableCodec []) 31000000000 ''executor-1'') =
     Inl (WorkerNotFound ''executor-1'') \<and>
   ttl staleRegistry < time_Since 31000000000 (LastHeartbeat idleWorker) \<and>
   fst (GetWorker staleRegistry (tableCodec [(''json(executor-1)'', idleWorker)]) 31000000000
          ''executor-1'') = Inr (idleWorker\<lparr>Status := WorkerStatusUnhealthy\<rparr>) \<and>
   snd (GetWorker staleRegistry (tableCodec [(''json(executor-1)'', idleWorker)]) 31000000000
          ''executor-1'') = staleRegistry"
proof -
  let ?js = "tableCodec [(''json(executor-1)'', idleWorker)]"
  note E = GetWorker_expired [of "NewRegistry emptyClient []" "tableCodec []" 31000000000
      "''executor-1''"]
  note S = GetWorker_expired [of staleRegistry ?js 31000000000 "''executor-1''"
      "''json(executor-1)''" 30000000000 idleWorker]
  have 1: "fst (GetWorker (NewRegistry emptyClient []) (tableCodec []) 31000000000
      ''executor-1'') = Inl (WorkerNotFound ''executor-1'')"
    using E [THEN conjunct2, THEN conjunct1] by (simp add: empty_facts)
  have 2: "ttl staleRegistry < time_Since 31000000000 (LastHeartbeat idleWorker)"
    by (simp add: age31 stale_facts)
  have 3: "fst (GetWorker staleRegistry ?js 31000000000 ''executor-1'') =
      Inr (idleWorker\<lparr>Status := WorkerStatusUnhealthy\<rparr>)"
    using S [THEN conjunct2, THEN conjunct2, THEN conjunct1]
    by (simp add: key1 stale_facts table1 age31)
  have 4: "snd (GetWorker staleRegistry ?js 31000000000 ''executor-1'') = staleRegistry"
    using S [THEN conjunct1] .
  from 1 2 3 4 show ?thesis by blast
qed

subsection \<open>Register, then GetWorker\<close>

lemma Register_success:
  assumes "Register r js worker = (None, r')"
  shows "\<exists>data. Marshal js worker = Inr data \<and>
           setErr (client r) (getWorkerKey (ID worker)) = None \<and>
           r' = logger_Info
                  (r\<lparr>client := (client r)\<lparr>kv := (kv (client r))
                                     (getWorkerKey (ID worker) \<mapsto> (data, ttl r))\<rparr>\<rparr>)
                  ''worker registered'' (ID worker)"
proof (cases "Marshal js worker")
  case (Inl e)
  with assms show ?thesis by (simp add: Register_def)
next
  case (Inr data)
  show ?thesis
  proof (cases "setErr (client r) (getWorkerKey (ID worker))")
    case None
    with Inr assms show ?thesis by (simp add: Register_def client_Set_def)
  next
    case (Some msg)
    with Inr assms show ?thesis by (simp add: Register_def client_Set_def)
  qed
qed

lemma utf8Codec_simps:
  "Marshal utf8Codec rawWorker = Inr ''json(executor-fffd)''"
  "Unmarshal utf8Codec ''json(executor-fffd)'' = Inr replacedWorker"
  by (simp_all add: utf8Codec_def coercingCodec_def)

lemma rawWorker_fields:
  "ID rawWorker = ''executor-'' @ [CHR 0xFF]"
  "Type rawWorker = WorkerTypeExecutor"
  "LastHeartbeat replacedWorker = 0"
  "ID replacedWorker = ''executor-'' @ [CHR 0xEF, CHR 0xBF, CHR 0xBD]"
  by (simp_all add: rawWorker_def replacedWorker_def)

lemma Register_raw:
  "Register (NewRegistry emptyClient []) utf8Codec rawWorker =
     (None,
      logger_Info
        (NewRegistry
           (emptyClient\<lparr>kv := [getWorkerKey (ID rawWorker) \<mapsto>
                                  (''json(executor-fffd)'', 30000000000)]\<rparr>) [])
        ''worker registered'' (ID rawWorker))"
  by (simp add: Register_def utf8Codec_simps client_Set_def NewRegistry_def emptyClient_def
      logger_Info_def defaultWorkerTTL_def Second_def)

text \<open>
  C6 as the specification states it: every record with a non-empty id and a known type
  comes back from \<open>GetWorker\<close> as it was registered, but for the status. It fails: the
  worker with the id \<open>executor-\<close> followed by the byte FF is registered, and
  \<open>GetWorker\<close> on its id returns a record with another id, the one with U+FFFD in the
  place of the byte.
\<close>

theorem Register_GetWorker_roundtrip_counterexample:
  "ID rawWorker \<noteq> [] \<and> Type rawWorker = WorkerTypeExecutor \<and>
   fst (Register (NewRegistry emptyClient []) utf8Codec rawWorker) = None \<and>
   fst (GetWorker (snd (Register (NewRegistry emptyClient []) utf8Codec rawWorker)) utf8Codec
          5000000000 (ID rawWorker)) = Inr replacedWorker \<and>
   ID replacedWorker \<noteq> ID rawWorker"
proof -
  let ?r' = "logger_Info
        (NewRegistry
           (emptyClient\<lparr>kv := [getWorkerKey (ID rawWorker) \<mapsto>
                                  (''json(executor-fffd)'', 30000000000)]\<rparr>) [])
        ''worker registered'' (ID rawWorker)"
  have g: "getErr (client ?r') (getWorkerKey (ID rawWorker)) = None"
    by (simp add: NewRegistry_def emptyClient_def logger_Info_def)
  have k: "kv (client ?r') (getWorkerKey (ID rawWorker)) =
      Some (''json(executor-fffd)'', 30000000000)"
    by (simp add: NewRegistry_def logger_Info_def)
  have t: "ttl ?r' = 30000000000"
    by (simp add: NewRegistry_def logger_Info_def defaultWorkerTTL_def Second_def)
  have a: "time_Since 5000000000 (LastHeartbeat replacedWorker) = 5000000000"
    by (simp add: rawWorker_fields time_Since_def maxDuration_def minDuration_def)
  have "fst (GetWorker ?r' utf8Codec 5000000000 (ID rawWorker)) = Inr replacedWorker"
    using GetWorker_present [OF g k utf8Codec_simps(2), of 5000000000] by (simp add: t a)
  then show ?thesis
    by (simp add: Register_raw rawWorker_fields)
qed

text \<open>
  C6, amended. Let \<open>Register\<close> succeed on a record that the codec decodes back from its
  own encoding, on a key whose reads do not fail. Then \<open>GetWorker\<close> on the registry as
  \<open>Register\<close> left it returns the record with every field as registered, except that
  the status is Unhealthy when the heartbeat age exceeds the TTL.
\<close>

theorem Register_GetWorker_roundtrip:
  assumes reg: "Register r js worker = (None, r')"
    and valid: "\<forall>data. Marshal js worker = Inr data \<longrightarrow> Unmarshal js data = Inr worker"
    and rd: "getErr (client r) (getWorkerKey (ID worker)) = None"
  shows "GetWorker r' js now (ID worker) =
           (Inr (worker\<lparr>Status := (if time_Since now (LastHeartbeat worker) > ttl r
                                    then WorkerStatusUnhealthy else Status worker)\<rparr>), r')"
proof -
  from Register_success [OF reg] obtain data where m: "Marshal js worker = Inr data"
    and r': "r' = logger_Info
                  (r\<lparr>client := (client r)\<lparr>kv := (kv (client r))
                                     (getWorkerKey (ID worker) \<mapsto> (data, ttl r))\<rparr>\<rparr>)
                  ''worker registered'' (ID worker)"
    by blast
  from valid m have u: "Unmarshal js data = Inr worker" by blast
  have g: "getErr (client r') (getWorkerKey (ID worker)) = None"
    using rd by (simp add: r' logger_Info_def)
  have k: "kv (client r') (getWorkerKey (ID worker)) = Some (data, ttl r)"
    by (simp add: r' logger_Info_def)
  have t: "ttl r' = ttl r" by (simp add: r' logger_Info_def)
  have "fst (GetWorker r' js now (ID worker)) =
     Inr (if time_Since now (LastHeartbeat worker) > ttl r'
          then worker\<lparr>Status := WorkerStatusUnhealthy\<rparr> else worker)"
    by (rule GetWorker_present [OF g k u])
  then have f: "fst (GetWorker r' js now (ID worker)) =
      Inr (worker\<lparr>Status := (if time_Since now (LastHeartbeat worker) > ttl r
                                    then WorkerStatusUnhealthy else Status worker)\<rparr>)"
    by (simp add: t)
  show ?thesis
    using f GetWorker_snd [of r' js now "ID worker"] by (metis prod.collapse)
qed

lemma Register_idle:
  "Register (NewRegistry emptyClient []) (tableCodec [(''json(executor-1)'', idleWorker)])
     idleWorker =
     (None, staleRegistry\<lparr>logger := [(InfoLevel, ''worker registered'', ''executor-1'')]\<rparr>)"
  by (simp add: Register_def NewRegistry_def emptyClient_def tableCodec_def idleWorker_def
      client_Set_def logger_Info_def staleRegistry_def getWorkerKey_def workerKeyPrefix_def
      defaultWorkerTTL_def Second_def)

lemma age5: "time_Since 5000000000 (LastHeartbeat idleWorker) = 5000000000"
  by (simp add: time_Since_def idleWorker_def maxDuration_def minDuration_def)

lemma table1_Marshal:
  "Marshal (tableCodec [(''json(executor-1)'', idleWorker)]) idleWorker = Inr ''json(executor-1)''"
  by (simp add: tableCodec_def)

theorem Register_GetWorker_roundtrip_witness:
  "Register (NewRegistry emptyClient []) (tableCodec [(''json(executor-1)'', idleWorker)])
     idleWorker =
     (None, staleRegistry\<lparr>logger := [(InfoLevel, ''worker registered'', ''executor-1'')]\<rparr>) \<and>
   GetWorker (staleRegistry\<lparr>logger := [(InfoLevel, ''worker registered'', ''executor-1'')]\<rparr>)
     (tableCodec [(''json(executor-1)'', idleWorker)]) 5000000000 (ID idleWorker) =
     (Inr idleWorker,
      staleRegistry\<lparr>logger := [(InfoLevel, ''worker registered'', ''executor-1'')]\<rparr>)"
proof -
  let ?js = "tableCodec [(''json(executor-1)'', idleWorker)]"
  have 2: "\<forall>data. Marshal ?js idleWorker = Inr data \<longrightarrow> Unmarshal ?js data = Inr idleWorker"
    by (simp add: table1_Marshal table1)
  have 3: "getErr (client (NewRegistry emptyClient [])) (getWorkerKey (ID idleWorker)) = None"
    by (rule empty_facts)
  have 4: "ttl (NewRegistry emptyClient []) = 30000000000"
    by (simp add: NewRegistry_def defaultWorkerTTL_def Second_def)
  show ?thesis
    using Register_idle Register_GetWorker_roundtrip [OF Register_idle 2 3, of 5000000000]
    by (simp add: age5 4)
qed

subsection \<open>Heartbeat\<close>

lemma GetWorker_pair: "GetWorker r js now workerID = (fst (GetWorker r js now workerID), r)"
  using GetWorker_snd [of r js now workerID] by (metis prod.collapse)

lemma getPendingTasksForWorker_logger_Warn [simp]:
  "getPendingTasksForWorker (logger_Warn r msg field) workerID workerType =
   getPendingTasksForWorker r workerID workerType"
  by (cases workerType) (simp_all add: getPendingTasksForWorker_def logger_Warn_def)

lemma logger_Warn_fields [simp]:
  "client (logger_Warn r msg field) = client r"
  "ttl (logger_Warn r msg field) = ttl r"
  "logger (logger_Warn r msg field) = logger r @ [(WarnLevel, msg, field)]"
  by (simp_all add: logger_Warn_def)

lemma Heartbeat_on_error:
  assumes e: "fst (GetWorker r js now workerID) = Inl e"
    and m: "Marshal js (autoRegistered r now workerID status currentTask) = Inr data"
    and s: "setErr (client r) (getWorkerKey workerID) = None"
  shows "fst (Heartbeat r js now workerID status currentTask) = None"
    and "kv (client (snd (Heartbeat r js now workerID status currentTask))) =
           (kv (client r))(getWorkerKey workerID \<mapsto> (data, ttl r))"
    and "(WarnLevel, ''heartbeat for unregistered worker, auto-registering'', workerID)
           \<in> set (logger (snd (Heartbeat r js now workerID status currentTask)))"
proof -
  have g: "GetWorker r js now workerID = (Inl e, r)"
    using GetWorker_pair [of r js now workerID] e by simp
  show "fst (Heartbeat r js now workerID status currentTask) = None"
    using m s
    by (cases "getPendingTasksForWorker r workerID (inferWorkerType workerID)")
      (simp_all add: Heartbeat_def g autoRegistered_def client_Set_def)
  show "kv (client (snd (Heartbeat r js now workerID status currentTask))) =
           (kv (client r))(getWorkerKey workerID \<mapsto> (data, ttl r))"
    using m s
    by (cases "getPendingTasksForWorker r workerID (inferWorkerType workerID)")
      (simp_all add: Heartbeat_def g autoRegistered_def client_Set_def)
  show "(WarnLevel, ''heartbeat for unregistered worker, auto-registering'', workerID)
           \<in> set (logger (snd (Heartbeat r js now workerID status currentTask)))"
    using m s
    by (cases "getPendingTasksForWorker r workerID (inferWorkerType workerID)")
      (simp_all add: Heartbeat_def g autoRegistered_def client_Set_def)
qed

lemma Heartbeat_error_cases:
  "fst (Heartbeat r js now workerID status currentTask) = None \<or>
   (\<exists>e. fst (Heartbeat r js now workerID status currentTask) = Some (FailedToMarshal e)) \<or>
   (\<exists>e. fst (Heartbeat r js now workerID status currentTask) =
      Some (FailedToUpdateHeartbeat e))"
  by (simp add: Heartbeat_def Let_def client_Set_def
      split: prod.split sum.split option.split)

lemma Heartbeat_never_NotFound:
  "fst (Heartbeat r js now workerID status currentTask) \<noteq> Some (WorkerNotFound x)"
  using Heartbeat_error_cases [of r js now workerID status currentTask] by auto

lemma autoRegistered_fields:
  "ID (autoRegistered r now workerID status currentTask) = workerID"
  "Type (autoRegistered r now workerID status currentTask) = inferWorkerType workerID"
  "Status (autoRegistered r now workerID status currentTask) = status"
  "CurrentTask (autoRegistered r now workerID status currentTask) = currentTask"
  "RegisteredAt (autoRegistered r now workerID status currentTask) = now"
  "LastHeartbeat (autoRegistered r now workerID status currentTask) = now"
  by (simp_all add: autoRegistered_def)

lemma inferWorkerType_eq:
  "inferWorkerType workerID =
     (if (\<exists>ps ss. workerID = ps @ ''executor'' @ ss) then WorkerTypeExecutor
      else if (\<exists>ps ss. workerID = ps @ ''router'' @ ss) then WorkerTypeRouter
      else WorkerTypeExecutor)"
  unfolding strings_Contains_iff [symmetric] by (simp add: inferWorkerType_def)

lemma pending_empty:
  "getPendingTasksForWorker (NewRegistry (emptyClient\<lparr>kv := m, getErr := g\<rparr>) l) workerID
     WorkerTypeExecutor = Inr 0"
  by (simp add: getPendingTasksForWorker_def NewRegistry_def emptyClient_def
      client_XInfoConsumers_def)

lemma infer_x: "inferWorkerType ''executor-worker-x'' = WorkerTypeExecutor"
  by (simp add: inferWorkerType_def)

lemma autoRegistered_busy:
  "autoRegistered (NewRegistry (emptyClient\<lparr>kv := m, getErr := g\<rparr>) l) 1000
     ''executor-worker-x'' WorkerStatusBusy ''task-7'' = busyWorker"
  by (simp add: autoRegistered_def infer_x pending_empty busyWorker_def)

lemma table_busy:
  "Marshal (tableCodec [(''json(executor-worker-x)'', busyWorker)]) busyWorker =
     Inr ''json(executor-worker-x)''"
  "Unmarshal (tableCodec [(''json(executor-worker-x)'', busyWorker)]) ''{'' =
     Inl ''unexpected end of JSON input''"
  by (simp_all add: tableCodec_def)

lemma emptyClient_upd: "emptyClient = emptyClient\<lparr>kv := Map.empty, getErr := Map.empty\<rparr>"
  by (simp add: emptyClient_def)

lemma corrupt_facts:
  "getErr (client corruptRegistry) k = None"
  "setErr (client corruptRegistry) k = None"
  "kv (client corruptRegistry) ''dago:workers:executor-worker-x'' = Some (''{'', 30000000000)"
  "ttl corruptRegistry = 30000000000"
  by (simp_all add: corruptRegistry_def NewRegistry_def emptyClient_def defaultWorkerTTL_def
      Second_def)

lemma unreachable_facts:
  "getErr (client unreachableRegistry) ''dago:workers:executor-worker-x'' = Some ''i/o timeout''"
  "setErr (client unreachableRegistry) k = None"
  "kv (client unreachableRegistry) k = None"
  "ttl unreachableRegistry = 30000000000"
  by (simp_all add: unreachableRegistry_def NewRegistry_def emptyClient_def defaultWorkerTTL_def
      Second_def)

lemma keyx: "getWorkerKey ''executor-worker-x'' = ''dago:workers:executor-worker-x''"
  by (simp add: getWorkerKey_def workerKeyPrefix_def)

lemma empty_set_facts:
  "setErr (client (NewRegistry emptyClient [])) k = None"
  "ttl (NewRegistry emptyClient []) = 30000000000"
  by (simp_all add: NewRegistry_def emptyClient_def defaultWorkerTTL_def Second_def)

lemma autoRegistered_busy_empty:
  "autoRegistered (NewRegistry emptyClient []) 1000 ''executor-worker-x'' WorkerStatusBusy
     ''task-7'' = busyWorker"
  using autoRegistered_busy [where m = Map.empty and g = Map.empty and l = "[]"] by (simp add: emptyClient_upd [symmetric])

lemma autoRegistered_busy_corrupt:
  "autoRegistered corruptRegistry 1000 ''executor-worker-x'' WorkerStatusBusy ''task-7'' =
     busyWorker"
  using autoRegistered_busy [where m = "[''dago:workers:executor-worker-x'' \<mapsto> (''{'', 30000000000)]"
      and g = Map.empty and l = "[]"]
  by (simp add: corruptRegistry_def emptyClient_def)

lemma autoRegistered_busy_unreachable:
  "autoRegistered unreachableRegistry 1000 ''executor-worker-x'' WorkerStatusBusy ''task-7'' =
     busyWorker"
  using autoRegistered_busy [where m = Map.empty
      and g = "[''dago:workers:executor-worker-x'' \<mapsto> ''i/o timeout'']" and l = "[]"]
  by (simp add: unreachableRegistry_def emptyClient_def)

text \<open>
  C5. \<open>Heartbeat\<close> never fails with \<open>WorkerNotFound\<close>. On an id with no stored record,
  when the encoding and the write succeed, it succeeds and stores the encoding of a new
  record: its id, status and current task are the arguments, and its type is Executor
  when the id contains \<open>executor\<close>, else Router when the id contains \<open>router\<close>, else
  Executor.
\<close>

theorem Heartbeat_self_healing:
  "(\<forall>x. fst (Heartbeat r js now workerID status currentTask) \<noteq> Some (WorkerNotFound x)) \<and>
   (getErr (client r) (getWorkerKey workerID) = None \<and>
    kv (client r) (getWorkerKey workerID) = None \<and>
    Marshal js (autoRegistered r now workerID status currentTask) = Inr data \<and>
    setErr (client r) (getWorkerKey workerID) = None \<longrightarrow>
      fst (Heartbeat r js now workerID status currentTask) = None \<and>
      kv (client (snd (Heartbeat r js now workerID status currentTask)))
        (getWorkerKey workerID) = Some (data, ttl r) \<and>
      ID (autoRegistered r now workerID status currentTask) = workerID \<and>
      Status (autoRegistered r now workerID status currentTask) = status \<and>
      CurrentTask (autoRegistered r now workerID status currentTask) = currentTask \<and>
      Type (autoRegistered r now workerID status currentTask) =
        (if (\<exists>ps ss. workerID = ps @ ''executor'' @ ss) then WorkerTypeExecutor
         else if (\<exists>ps ss. workerID = ps @ ''router'' @ ss) then WorkerTypeRouter
         else WorkerTypeExecutor))"
proof (intro conjI allI impI)
  fix x show "fst (Heartbeat r js now workerID status currentTask) \<noteq> Some (WorkerNotFound x)"
    by (rule Heartbeat_never_NotFound)
next
  assume a: "getErr (client r) (getWorkerKey workerID) = None \<and>
    kv (client r) (getWorkerKey workerID) = None \<and>
    Marshal js (autoRegistered r now workerID status currentTask) = Inr data \<and>
    setErr (client r) (getWorkerKey workerID) = None"
  then have e: "fst (GetWorker r js now workerID) = Inl (WorkerNotFound workerID)"
    by (simp add: GetWorker_absent)
  from a have m: "Marshal js (autoRegistered r now workerID status currentTask) = Inr data"
    and s: "setErr (client r) (getWorkerKey workerID) = None" by simp_all
  show "fst (Heartbeat r js now workerID status currentTask) = None"
    by (rule Heartbeat_on_error(1) [OF e m s])
  show "kv (client (snd (Heartbeat r js now workerID status currentTask)))
        (getWorkerKey workerID) = Some (data, ttl r)"
    by (simp add: Heartbeat_on_error(2) [OF e m s])
  show "ID (autoRegistered r now workerID status currentTask) = workerID"
    "Status (autoRegistered r now workerID status currentTask) = status"
    "CurrentTask (autoRegistered r now workerID status currentTask) = currentTask"
    by (simp_all add: autoRegistered_fields)
  show "Type (autoRegistered r now workerID status currentTask) =
        (if (\<exists>ps ss. workerID = ps @ ''executor'' @ ss) then WorkerTypeExecutor
         else if (\<exists>ps ss. workerID = ps @ ''router'' @ ss) then WorkerTypeRouter
         else WorkerTypeExecutor)"
    by (simp only: autoRegistered_fields inferWorkerType_eq)
qed

theorem Heartbeat_self_healing_witness:
  "getErr (client (NewRegistry emptyClient [])) (getWorkerKey ''executor-worker-x'') = None \<and>
   kv (client (NewRegistry emptyClient [])) (getWorkerKey ''executor-worker-x'') = None \<and>
   fst (Heartbeat (NewRegistry emptyClient [])
          (tableCodec [(''json(executor-worker-x)'', busyWorker)]) 1000
          ''executor-worker-x'' WorkerStatusBusy ''task-7'') = None \<and>
   kv (client (snd (Heartbeat (NewRegistry emptyClient [])
          (tableCodec [(''json(executor-worker-x)'', busyWorker)]) 1000
          ''executor-worker-x'' WorkerStatusBusy ''task-7'')))
     ''dago:workers:executor-worker-x'' = Some (''json(executor-worker-x)'', 30000000000) \<and>
   Type busyWorker = WorkerTypeExecutor \<and> Status busyWorker = WorkerStatusBusy \<and>
   CurrentTask busyWorker = ''task-7''"
proof -
  let ?r = "NewRegistry emptyClient []"
  let ?js = "tableCodec [(''json(executor-worker-x)'', busyWorker)]"
  note H = Heartbeat_self_healing [of ?r ?js 1000 "''executor-worker-x''" WorkerStatusBusy
      "''task-7''" "''json(executor-worker-x)''", THEN conjunct2]
  have p: "getErr (client ?r) (getWorkerKey ''executor-worker-x'') = None \<and>
    kv (client ?r) (getWorkerKey ''executor-worker-x'') = None \<and>
    Marshal ?js (autoRegistered ?r 1000 ''executor-worker-x'' WorkerStatusBusy ''task-7'') =
      Inr ''json(executor-worker-x)'' \<and>
    setErr (client ?r) (getWorkerKey ''executor-worker-x'') = None"
    by (simp add: empty_facts empty_set_facts autoRegistered_busy_empty table_busy)
  from H [rule_format, OF p] p show ?thesis
    by (simp add: keyx empty_set_facts busyWorker_def)
qed

text \<open>
  C2. The branch that registers the worker anew is taken on every error of \<open>GetWorker\<close>,
  not only when the record is absent. With a stored payload that does not decode,
  \<open>GetWorker\<close> reports the decoding error, while \<open>Heartbeat\<close> succeeds and overwrites
  the payload with a new record; with a read that fails with an I/O error,
  \<open>Heartbeat\<close> succeeds as well and logs a heartbeat for an unregistered worker.
\<close>

theorem Heartbeat_read_error_auto_registers:
  "fst (GetWorker corruptRegistry (tableCodec [(''json(executor-worker-x)'', busyWorker)]) 1000
          ''executor-worker-x'') = Inl (FailedToUnmarshal ''unexpected end of JSON input'') \<and>
   fst (Heartbeat corruptRegistry (tableCodec [(''json(executor-worker-x)'', busyWorker)]) 1000
          ''executor-worker-x'' WorkerStatusBusy ''task-7'') = None \<and>
   kv (client (snd (Heartbeat corruptRegistry
          (tableCodec [(''json(executor-worker-x)'', busyWorker)]) 1000
          ''executor-worker-x'' WorkerStatusBusy ''task-7'')))
     ''dago:workers:executor-worker-x'' = Some (''json(executor-worker-x)'', 30000000000) \<and>
   fst (GetWorker unreachableRegistry (tableCodec [(''json(executor-worker-x)'', busyWorker)])
          1000 ''executor-worker-x'') = Inl (FailedToGetWorker (Err ''i/o timeout'')) \<and>
   fst (Heartbeat unreachableRegistry (tableCodec [(''json(executor-worker-x)'', busyWorker)])
          1000 ''executor-worker-x'' WorkerStatusBusy ''task-7'') = None \<and>
   (WarnLevel, ''heartbeat for unregistered worker, auto-registering'', ''executor-worker-x'')
     \<in> set (logger (snd (Heartbeat unreachableRegistry
          (tableCodec [(''json(executor-worker-x)'', busyWorker)]) 1000
          ''executor-worker-x'' WorkerStatusBusy ''task-7'')))"
proof -
  let ?js = "tableCodec [(''json(executor-worker-x)'', busyWorker)]"
  have c: "fst (GetWorker corruptRegistry ?js 1000 ''executor-worker-x'') =
      Inl (FailedToUnmarshal ''unexpected end of JSON input'')"
    by (simp add: GetWorker_def client_Get_def keyx corrupt_facts table_busy)
  have u: "fst (GetWorker unreachableRegistry ?js 1000 ''executor-worker-x'') =
      Inl (FailedToGetWorker (Err ''i/o timeout''))"
    by (simp add: GetWorker_def client_Get_def keyx unreachable_facts)
  have mc: "Marshal ?js (autoRegistered corruptRegistry 1000 ''executor-worker-x''
      WorkerStatusBusy ''task-7'') = Inr ''json(executor-worker-x)''"
    by (simp add: autoRegistered_busy_corrupt table_busy)
  have mu: "Marshal ?js (autoRegistered unreachableRegistry 1000 ''executor-worker-x''
      WorkerStatusBusy ''task-7'') = Inr ''json(executor-worker-x)''"
    by (simp add: autoRegistered_busy_unreachable table_busy)
  have sc: "setErr (client corruptRegistry) (getWorkerKey ''executor-worker-x'') = None"
    by (rule corrupt_facts)
  have su: "setErr (client unreachableRegistry) (getWorkerKey ''executor-worker-x'') = None"
    by (rule unreachable_facts)
  note C = Heartbeat_on_error [OF c mc sc]
  note U = Heartbeat_on_error [OF u mu su]
  from c u C(1) U(1) U(3) show ?thesis
    by (simp add: C(2) keyx corrupt_facts)
qed

subsection \<open>The loop of CleanupStaleWorkers\<close>

lemma logger_Info_fields [simp]:
  "client (logger_Info r msg field) = client r"
  "ttl (logger_Info r msg field) = ttl r"
  "logger (logger_Info r msg field) = logger r @ [(InfoLevel, msg, field)]"
  by (simp_all add: logger_Info_def)

lemma isStale_present: "isStale c js now timeout key \<Longrightarrow> \<exists>v. kv c key = Some v"
  by (auto simp: isStale_def client_Get_def split: option.splits)

lemma client_Get_deleted:
  "client_Get (c\<lparr>kv := (kv c)(key := None)\<rparr>) k =
     (if k = key then (case getErr c key of Some msg \<Rightarrow> Inl (Err msg) | None \<Rightarrow> Inl redis_Nil)
      else client_Get c k)"
  by (simp add: client_Get_def split: option.split)

lemma isStale_deleted:
  "isStale (c\<lparr>kv := (kv c)(key := None)\<rparr>) js now timeout k =
     (k \<noteq> key \<and> isStale c js now timeout k)"
  by (simp add: isStale_def client_Get_deleted split: option.split)

lemma sweeps_deleted:
  "sweeps (c\<lparr>kv := (kv c)(key := None)\<rparr>) js now timeout k =
     (k \<noteq> key \<and> sweeps c js now timeout k)"
  by (auto simp: sweeps_def isStale_deleted)

lemma swept_Nil: "swept c js now timeout [] = c"
  by (simp add: swept_def)

lemma swept_Cons_skip:
  "\<not> sweeps c js now timeout key \<Longrightarrow>
   swept c js now timeout (key # keys) = swept c js now timeout keys"
  by (auto simp: swept_def fun_eq_iff intro!: arg_cong [where f = "\<lambda>m. c\<lparr>kv := m\<rparr>"])

lemma swept_Cons_del:
  "sweeps c js now timeout key \<Longrightarrow>
   swept c js now timeout (key # keys) =
     swept (c\<lparr>kv := (kv c)(key := None)\<rparr>) js now timeout keys"
  by (auto simp: swept_def sweeps_deleted fun_eq_iff)

lemma card_skip:
  "\<not> sweeps c js now timeout key \<Longrightarrow>
   card {k \<in> set (key # keys). sweeps c js now timeout k} =
     card {k \<in> set keys. sweeps c js now timeout k}"
  by (rule arg_cong [where f = card]) auto

lemma card_del:
  assumes "sweeps c js now timeout key"
  shows "card {k \<in> set (key # keys). sweeps c js now timeout k} =
     Suc (card {k \<in> set keys. sweeps (c\<lparr>kv := (kv c)(key := None)\<rparr>) js now timeout k})"
proof -
  let ?D = "{k \<in> set keys. sweeps (c\<lparr>kv := (kv c)(key := None)\<rparr>) js now timeout k}"
  have "{k \<in> set (key # keys). sweeps c js now timeout k} = insert key ?D"
    using assms by (auto simp: sweeps_deleted)
  moreover have "key \<notin> ?D" by (simp add: sweeps_deleted)
  moreover have "finite ?D" by simp
  ultimately show ?thesis by simp
qed

lemma cleanupLoop_skip:
  "\<not> isStale (client r) js now timeout key \<Longrightarrow>
   cleanupLoop r js now timeout (key # keys) cleaned = cleanupLoop r js now timeout keys cleaned"
  by (simp add: isStale_def split: sum.splits)

lemma cleanupLoop_fail:
  assumes "isStale (client r) js now timeout key" and "delErr (client r) key = Some msg"
  shows "\<exists>w. cleanupLoop r js now timeout (key # keys) cleaned =
     cleanupLoop (logger_Warn r ''failed to delete stale worker'' w) js now timeout keys cleaned"
proof -
  from assms(1) obtain data worker where g: "client_Get (client r) key = Inr data"
    and u: "Unmarshal js data = Inr worker"
    and a: "time_Since now (LastHeartbeat worker) > timeout"
    by (auto simp: isStale_def split: sum.splits)
  have "cleanupLoop r js now timeout (key # keys) cleaned =
     cleanupLoop (logger_Warn r ''failed to delete stale worker'' (ID worker)) js now timeout
       keys cleaned"
    using g u a assms(2) by (simp add: client_Del_def)
  then show ?thesis by blast
qed

lemma cleanupLoop_del:
  assumes "isStale (client r) js now timeout key" and "delErr (client r) key = None"
  shows "\<exists>w. cleanupLoop r js now timeout (key # keys) cleaned =
     cleanupLoop
       (logger_Info (r\<lparr>client := (client r)\<lparr>kv := (kv (client r))(key := None)\<rparr>\<rparr>)
          ''cleaned up stale worker'' w)
       js now timeout keys (Suc cleaned)"
proof -
  from assms(1) obtain data worker where g: "client_Get (client r) key = Inr data"
    and u: "Unmarshal js data = Inr worker"
    and a: "time_Since now (LastHeartbeat worker) > timeout"
    by (auto simp: isStale_def split: sum.splits)
  have "cleanupLoop r js now timeout (key # keys) cleaned =
     cleanupLoop
       (logger_Info (r\<lparr>client := (client r)\<lparr>kv := (kv (client r))(key := None)\<rparr>\<rparr>)
          ''cleaned up stale worker'' (ID worker))
       js now timeout keys (Suc cleaned)"
    using g u a assms(2) by (simp add: client_Del_def)
  then show ?thesis by blast
qed

lemma cleanupLoop_spec:
  "fst (cleanupLoop r js now timeout keys cleaned) =
     cleaned + card {k \<in> set keys. sweeps (client r) js now timeout k} \<and>
   client (snd (cleanupLoop r js now timeout keys cleaned)) =
     swept (client r) js now timeout keys \<and>
   ttl (snd (cleanupLoop r js now timeout keys cleaned)) = ttl r"
proof (induction keys arbitrary: r cleaned)
  case Nil
  show ?case by (simp add: swept_Nil)
next
  case (Cons key keys)
  show ?case
  proof (cases "isStale (client r) js now timeout key")
    case False
    then have n: "\<not> sweeps (client r) js now timeout key" by (simp add: sweeps_def)
    show ?thesis
      using Cons.IH [of r cleaned]
      by (simp only: cleanupLoop_skip [OF False] card_skip [OF n] swept_Cons_skip [OF n])
  next
    case True
    show ?thesis
    proof (cases "delErr (client r) key")
      case (Some msg)
      then have n: "\<not> sweeps (client r) js now timeout key" by (simp add: sweeps_def)
      from cleanupLoop_fail [OF True Some, of keys cleaned] obtain w where
        e: "cleanupLoop r js now timeout (key # keys) cleaned =
          cleanupLoop (logger_Warn r ''failed to delete stale worker'' w) js now timeout keys
            cleaned" by blast
      show ?thesis
        using Cons.IH [of "logger_Warn r ''failed to delete stale worker'' w" cleaned]
        by (simp only: e card_skip [OF n] swept_Cons_skip [OF n] logger_Warn_fields)
    next
      case None
      with True have y: "sweeps (client r) js now timeout key" by (simp add: sweeps_def)
      from cleanupLoop_del [OF True None, of keys cleaned] obtain w where
        e: "cleanupLoop r js now timeout (key # keys) cleaned =
          cleanupLoop
            (logger_Info (r\<lparr>client := (client r)\<lparr>kv := (kv (client r))(key := None)\<rparr>\<rparr>)
               ''cleaned up stale worker'' w)
            js now timeout keys (Suc cleaned)" by blast
      show ?thesis
        unfolding e card_del [OF y] swept_Cons_del [OF y]
        using Cons.IH [of "logger_Info
            (r\<lparr>client := (client r)\<lparr>kv := (kv (client r))(key := None)\<rparr>\<rparr>)
               ''cleaned up stale worker'' w" "Suc cleaned"]
        by simp
    qed
  qed
qed

subsection \<open>CleanupStaleWorkers\<close>

lemma fleet_scan: "scanKeys (NewRegistry (fleetClient\<lparr>delErr := e\<rparr>) l) pattern = Some (Inr fleetKeys)"
  unfolding scanKeys_def
  apply (subst scanLoop.simps)
  apply (simp add: client_Scan_def NewRegistry_def fleetClient_def)
  apply (subst scanLoop.simps)
  apply (simp add: client_Scan_def fleetKeys_def)
  done

lemma fleetClient_delErr: "fleetClient\<lparr>delErr := Map.empty\<rparr> = fleetClient"
  by (simp add: fleetClient_def emptyClient_def)

lemma fleet_scanKeys: "scanKeys fleet pattern = Some (Inr fleetKeys)"
  using fleet_scan [of Map.empty "[]" pattern] by (simp add: fleet_def fleetClient_delErr)

lemma fleetFailing_scanKeys: "scanKeys fleetFailing pattern = Some (Inr fleetKeys)"
  using fleet_scan [of "[''dago:workers:executor-c'' \<mapsto> ''i/o timeout'']" "[]" pattern]
  by (simp add: fleetFailing_def)

lemma scanFailing_scanKeys: "scanKeys scanFailing pattern = Some (Inl (Err ''i/o timeout''))"
  unfolding scanKeys_def
  apply (subst scanLoop.simps)
  apply (simp add: client_Scan_def NewRegistry_def scanFailing_def)
  done

lemma fleet_Get:
  "client_Get (fleetClient\<lparr>delErr := e\<rparr>) ''dago:workers:executor-a'' = Inr ''json(a)''"
  "client_Get (fleetClient\<lparr>delErr := e\<rparr>) ''dago:workers:router-b'' = Inr ''json(b)''"
  "client_Get (fleetClient\<lparr>delErr := e\<rparr>) ''dago:workers:executor-c'' = Inr ''json(c)''"
  "client_Get (fleetClient\<lparr>delErr := e\<rparr>) ''dago:workers:executor-d'' = Inr ''json(d)''"
  by (simp_all add: client_Get_def fleetClient_def emptyClient_def)

lemma fleet_Unmarshal:
  "Unmarshal fleetCodec ''json(a)'' = Inr workerA"
  "Unmarshal fleetCodec ''json(b)'' = Inr workerB"
  "Unmarshal fleetCodec ''json(c)'' = Inr workerC"
  "Unmarshal fleetCodec ''json(d)'' = Inr workerD"
  by (simp_all add: fleetCodec_def tableCodec_def)

lemma fleet_age:
  "time_Since 100000000000 (LastHeartbeat workerA) = 29000000000"
  "time_Since 100000000000 (LastHeartbeat workerB) = 5000000000"
  "time_Since 100000000000 (LastHeartbeat workerC) = 31000000000"
  "time_Since 100000000000 (LastHeartbeat workerD) = 10000000000"
  by (simp_all add: time_Since_def workerA_def workerB_def workerC_def workerD_def
      maxDuration_def minDuration_def)

lemma fleet_isStale:
  "\<not> isStale (fleetClient\<lparr>delErr := e\<rparr>) fleetCodec 100000000000 30000000000
       ''dago:workers:executor-a''"
  "\<not> isStale (fleetClient\<lparr>delErr := e\<rparr>) fleetCodec 100000000000 30000000000
       ''dago:workers:router-b''"
  "isStale (fleetClient\<lparr>delErr := e\<rparr>) fleetCodec 100000000000 30000000000
       ''dago:workers:executor-c''"
  "\<not> isStale (fleetClient\<lparr>delErr := e\<rparr>) fleetCodec 100000000000 30000000000
       ''dago:workers:executor-d''"
  by (simp_all add: isStale_def fleet_Get fleet_Unmarshal fleet_age)

lemma CleanupStaleWorkers_result:
  assumes "scanKeys r (workerKeyPrefix @ ''*'') = Some (Inr keys)"
  shows "\<exists>r'. CleanupStaleWorkers r js now timeout =
            Some ((card {k \<in> set keys. sweeps (client r) js now timeout k}, None), r') \<and>
          client r' = swept (client r) js now timeout keys"
proof -
  obtain n r' where l: "cleanupLoop r js now timeout keys 0 = (n, r')"
    by (cases "cleanupLoop r js now timeout keys 0")
  from cleanupLoop_spec [of r js now timeout keys 0] l
  have "n = card {k \<in> set keys. sweeps (client r) js now timeout k}"
    and "client r' = swept (client r) js now timeout keys" by simp_all
  with assms l show ?thesis by (simp add: CleanupStaleWorkers_def)
qed

lemma isStale_iff:
  assumes "getErr c k = None"
  shows "isStale c js now timeout k \<longleftrightarrow>
     (\<exists>data d w. kv c k = Some (data, d) \<and> Unmarshal js data = Inr w \<and>
        timeout < time_Since now (LastHeartbeat w))"
proof (cases "kv c k")
  case None
  with assms show ?thesis by (simp add: isStale_def client_Get_def)
next
  case (Some v)
  obtain data d where v: "v = (data, d)" by (cases v)
  show ?thesis
    using assms Some v
    by (cases "Unmarshal js data") (simp_all add: isStale_def client_Get_def)
qed

lemma kv_swept:
  "kv (swept c js now timeout keys) k =
     (if k \<in> set keys \<and> sweeps c js now timeout k then None else kv c k)"
  by (simp add: swept_def)

lemma fleet_client: "client fleet = fleetClient\<lparr>delErr := Map.empty\<rparr>"
  by (simp add: fleet_def NewRegistry_def fleetClient_delErr)

lemma fleetFailing_client:
  "client fleetFailing =
     fleetClient\<lparr>delErr := [''dago:workers:executor-c'' \<mapsto> ''i/o timeout'']\<rparr>"
  by (simp add: fleetFailing_def NewRegistry_def)

lemma fleet_kv:
  "kv fleetClient ''dago:workers:executor-a'' = Some (''json(a)'', 30000000000)"
  "kv fleetClient ''dago:workers:executor-c'' = Some (''json(c)'', 30000000000)"
  "getErr fleetClient k = None"
  "delErr fleetClient k = None"
  by (simp_all add: fleetClient_def emptyClient_def)

lemma fleet_ID: "ID workerC = ''executor-c''"
  by (simp add: workerC_def)

lemma fleet_cleanupLoop_failing:
  "cleanupLoop fleetFailing fleetCodec 100000000000 30000000000 fleetKeys 0 =
     (0, fleetFailing\<lparr>logger := [(WarnLevel, ''failed to delete stale worker'',
                                   ''executor-c'')]\<rparr>)"
  by (simp add: fleetKeys_def fleetFailing_def NewRegistry_def fleet_Get fleet_Unmarshal
      fleet_age client_Del_def logger_Warn_def fleet_ID)

lemma fleetFailing_cleanup:
  "CleanupStaleWorkers fleetFailing fleetCodec 100000000000 30000000000 =
     Some ((0, None),
           fleetFailing\<lparr>logger := [(WarnLevel, ''failed to delete stale worker'',
                                     ''executor-c'')]\<rparr>)"
  by (simp add: CleanupStaleWorkers_def fleetFailing_scanKeys fleet_cleanupLoop_failing)

lemma removed_keys:
  "{k. kv c k \<noteq> None \<and> kv (swept c js now timeout keys) k = None} =
   {k \<in> set keys. sweeps c js now timeout k}"
proof -
  have "kv c k \<noteq> None" if "sweeps c js now timeout k" for k
    using that isStale_present [of c js now timeout k] by (auto simp: sweeps_def)
  then show ?thesis by (auto simp: kv_swept)
qed

text \<open>
  C9. Let the scan return the keys, and let no read and no delete of one of them fail.
  Then \<open>CleanupStaleWorkers\<close> returns, without an error, the number of the keys whose
  record has a heartbeat age above the timeout, and the keyspace afterwards is the
  keyspace before without exactly those keys. In particular a record that is one second
  younger than the timeout stays, and a record that is one second older is removed and
  adds exactly one to the count.
\<close>

theorem CleanupStaleWorkers_threshold:
  assumes scan: "scanKeys r (workerKeyPrefix @ ''*'') = Some (Inr keys)"
    and nofault: "\<forall>k\<in>set keys. getErr (client r) k = None \<and> delErr (client r) k = None"
  shows "\<exists>r'. CleanupStaleWorkers r js now timeout =
           Some ((card {k \<in> set keys. \<exists>data d w. kv (client r) k = Some (data, d) \<and>
                          Unmarshal js data = Inr w \<and>
                          timeout < time_Since now (LastHeartbeat w)}, None), r') \<and>
         (\<forall>k. kv (client r') k =
            (if k \<in> set keys \<and>
                (\<exists>data d w. kv (client r) k = Some (data, d) \<and> Unmarshal js data = Inr w \<and>
                   timeout < time_Since now (LastHeartbeat w))
             then None else kv (client r) k)) \<and>
         (\<forall>k data d w. kv (client r) k = Some (data, d) \<and> Unmarshal js data = Inr w \<and>
            time_Since now (LastHeartbeat w) = timeout - Second \<longrightarrow>
            kv (client r') k = Some (data, d)) \<and>
         (\<forall>k\<in>set keys. \<forall>data d w. kv (client r) k = Some (data, d) \<and>
            Unmarshal js data = Inr w \<and>
            time_Since now (LastHeartbeat w) = timeout + Second \<longrightarrow>
            kv (client r') k = None \<and>
            card {k \<in> set keys. \<exists>data d w. kv (client r) k = Some (data, d) \<and>
                    Unmarshal js data = Inr w \<and>
                    timeout < time_Since now (LastHeartbeat w)} =
              Suc (card ({k \<in> set keys. \<exists>data d w. kv (client r) k = Some (data, d) \<and>
                            Unmarshal js data = Inr w \<and>
                            timeout < time_Since now (LastHeartbeat w)} - {k})))"
proof -
  let ?old = "\<lambda>k. \<exists>data d w. kv (client r) k = Some (data, d) \<and> Unmarshal js data = Inr w \<and>
                   timeout < time_Since now (LastHeartbeat w)"
  have sw: "sweeps (client r) js now timeout k \<longleftrightarrow> ?old k" if "k \<in> set keys" for k
    using that nofault by (simp add: sweeps_def isStale_iff)
  then have eq: "{k \<in> set keys. sweeps (client r) js now timeout k} = {k \<in> set keys. ?old k}"
    by blast
  from CleanupStaleWorkers_result [OF scan, of js now timeout] obtain r' where
    c: "CleanupStaleWorkers r js now timeout =
            Some ((card {k \<in> set keys. sweeps (client r) js now timeout k}, None), r')"
    and cl: "client r' = swept (client r) js now timeout keys" by blast
  have k: "kv (client r') k = (if k \<in> set keys \<and> ?old k then None else kv (client r) k)" for k
  proof (cases "k \<in> set keys")
    case True
    show ?thesis
      unfolding cl kv_swept sw [OF True] ..
  next
    case False
    then show ?thesis by (simp add: cl kv_swept)
  qed
  have s: "0 < Second" by (simp add: Second_def)
  have young: "kv (client r') k = Some (data, d)"
    if "kv (client r) k = Some (data, d) \<and> Unmarshal js data = Inr w \<and>
        time_Since now (LastHeartbeat w) = timeout - Second" for k data d w
    using that s by (auto simp: k)
  have old: "kv (client r') k = None \<and>
      card {k \<in> set keys. ?old k} = Suc (card ({k \<in> set keys. ?old k} - {k}))"
    if "k \<in> set keys" and "kv (client r) k = Some (data, d) \<and> Unmarshal js data = Inr w \<and>
        time_Since now (LastHeartbeat w) = timeout + Second" for k data d w
  proof -
    from that s have o: "?old k" by auto
    with that(1) have 1: "kv (client r') k = None" by (simp only: k if_True simp_thms)
    from o that(1) have "k \<in> {k \<in> set keys. ?old k}" by simp
    moreover have "finite {k \<in> set keys. ?old k}" by simp
    ultimately have "card {k \<in> set keys. ?old k} = Suc (card ({k \<in> set keys. ?old k} - {k}))"
      by (simp only: card_Suc_Diff1)
    with 1 show ?thesis by (rule conjI)
  qed
  show ?thesis
  proof (intro exI [of _ r'] conjI)
    show "CleanupStaleWorkers r js now timeout =
           Some ((card {k \<in> set keys. ?old k}, None), r')"
      unfolding eq [symmetric] by (rule c)
    show "\<forall>k. kv (client r') k = (if k \<in> set keys \<and> ?old k then None else kv (client r) k)"
      by (intro allI) (rule k)
    show "\<forall>k data d w. kv (client r) k = Some (data, d) \<and> Unmarshal js data = Inr w \<and>
            time_Since now (LastHeartbeat w) = timeout - Second \<longrightarrow>
            kv (client r') k = Some (data, d)"
      using young by blast
    show "\<forall>k\<in>set keys. \<forall>data d w. kv (client r) k = Some (data, d) \<and>
            Unmarshal js data = Inr w \<and>
            time_Since now (LastHeartbeat w) = timeout + Second \<longrightarrow>
            kv (client r') k = None \<and>
            card {k \<in> set keys. ?old k} = Suc (card ({k \<in> set keys. ?old k} - {k}))"
      using old by blast
  qed
qed

theorem CleanupStaleWorkers_threshold_witness:
  "scanKeys fleet (workerKeyPrefix @ ''*'') = Some (Inr fleetKeys) \<and>
   getErr (client fleet) ''dago:workers:executor-c'' = None \<and>
   delErr (client fleet) ''dago:workers:executor-c'' = None \<and>
   (\<exists>r'. CleanupStaleWorkers fleet fleetCodec 100000000000 30000000000 =
            Some ((1, None), r') \<and>
          kv (client r') ''dago:workers:executor-a'' = Some (''json(a)'', 30000000000) \<and>
          kv (client r') ''dago:workers:executor-c'' = None)"
proof -
  let ?old = "\<lambda>k. \<exists>data d w. kv (client fleet) k = Some (data, d) \<and>
      Unmarshal fleetCodec data = Inr w \<and> 30000000000 < time_Since 100000000000 (LastHeartbeat w)"
  have scan: "scanKeys fleet (workerKeyPrefix @ ''*'') = Some (Inr fleetKeys)"
    by (rule fleet_scanKeys)
  have nofault: "\<forall>k\<in>set fleetKeys. getErr (client fleet) k = None \<and> delErr (client fleet) k = None"
    by (simp add: fleet_client fleet_kv)
  have st: "?old k \<longleftrightarrow> isStale (client fleet) fleetCodec 100000000000 30000000000 k" for k
    by (rule isStale_iff [symmetric]) (simp add: fleet_client fleet_kv)
  have "{k \<in> set fleetKeys. ?old k} = {''dago:workers:executor-c''}"
    unfolding st by (auto simp: fleetKeys_def fleet_client fleet_isStale)
  then have one: "card {k \<in> set fleetKeys. ?old k} = 1" by simp
  from CleanupStaleWorkers_threshold [OF scan nofault, of fleetCodec 100000000000 30000000000]
  obtain r' where c: "CleanupStaleWorkers fleet fleetCodec 100000000000 30000000000 =
           Some ((card {k \<in> set fleetKeys. ?old k}, None), r')"
    and young: "\<forall>k data d w. kv (client fleet) k = Some (data, d) \<and>
            Unmarshal fleetCodec data = Inr w \<and>
            time_Since 100000000000 (LastHeartbeat w) = 30000000000 - Second \<longrightarrow>
            kv (client r') k = Some (data, d)"
    and old: "\<forall>k\<in>set fleetKeys. \<forall>data d w. kv (client fleet) k = Some (data, d) \<and>
            Unmarshal fleetCodec data = Inr w \<and>
            time_Since 100000000000 (LastHeartbeat w) = 30000000000 + Second \<longrightarrow>
            kv (client r') k = None \<and>
            card {k \<in> set fleetKeys. ?old k} =
              Suc (card ({k \<in> set fleetKeys. ?old k} - {k}))"
    by blast
  have a: "kv (client r') ''dago:workers:executor-a'' = Some (''json(a)'', 30000000000)"
    using young [rule_format, of "''dago:workers:executor-a''" "''json(a)''" 30000000000 workerA]
    by (simp add: fleet_client fleet_kv fleet_Unmarshal fleet_age Second_def)
  have cc: "kv (client r') ''dago:workers:executor-c'' = None"
    using old [rule_format, of "''dago:workers:executor-c''" "''json(c)''" 30000000000 workerC]
    by (simp add: fleet_client fleet_kv fleet_Unmarshal fleet_age Second_def fleetKeys_def)
  have nc: "getErr (client fleet) ''dago:workers:executor-c'' = None"
    "delErr (client fleet) ''dago:workers:executor-c'' = None"
    using nofault by (simp_all add: fleetKeys_def)
  from scan nc c one a cc show ?thesis by (simp only:, blast)
qed

text \<open>
  C1 as the specification states it: a delete that fails makes the sweep return a store
  error. It fails: with a failing delete of the stale \<open>executor-c\<close> the sweep returns the
  count 0 and no error, and the failure is only a warning in the log.
\<close>

theorem CleanupStaleWorkers_swallows_delete_failure_counterexample:
  "isStale (client fleetFailing) fleetCodec 100000000000 30000000000
     ''dago:workers:executor-c'' \<and>
   delErr (client fleetFailing) ''dago:workers:executor-c'' = Some ''i/o timeout'' \<and>
   CleanupStaleWorkers fleetFailing fleetCodec 100000000000 30000000000 =
     Some ((0, None),
           fleetFailing\<lparr>logger := [(WarnLevel, ''failed to delete stale worker'',
                                     ''executor-c'')]\<rparr>)"
  by (simp add: fleetFailing_cleanup fleetFailing_client fleet_isStale)

lemma cleanupLoop_fail_exact:
  assumes "client_Get (client r) key = Inr data" and "Unmarshal js data = Inr worker"
    and "timeout < time_Since now (LastHeartbeat worker)"
    and "delErr (client r) key = Some msg"
  shows "cleanupLoop r js now timeout (key # keys) cleaned =
     cleanupLoop (logger_Warn r ''failed to delete stale worker'' (ID worker)) js now timeout
       keys cleaned"
  using assms by (simp add: client_Del_def)

lemma cleanupLoop_step:
  "\<exists>r1 n1. cleanupLoop r js now timeout (key # keys) cleaned =
             cleanupLoop r1 js now timeout keys n1 \<and>
           set (logger r) \<subseteq> set (logger r1) \<and>
           (client r1 = client r \<or>
            delErr (client r) key = None \<and>
            client r1 = (client r)\<lparr>kv := (kv (client r))(key := None)\<rparr>)"
proof (cases "isStale (client r) js now timeout key")
  case False
  from cleanupLoop_skip [OF False, of keys cleaned] show ?thesis by blast
next
  case True
  show ?thesis
  proof (cases "delErr (client r) key")
    case (Some msg)
    from cleanupLoop_fail [OF True Some, of keys cleaned] obtain w where
      "cleanupLoop r js now timeout (key # keys) cleaned =
          cleanupLoop (logger_Warn r ''failed to delete stale worker'' w) js now timeout keys
            cleaned" by blast
    then show ?thesis
      by (intro exI [of _ "logger_Warn r ''failed to delete stale worker'' w"] exI [of _ cleaned])
        auto
  next
    case None
    from cleanupLoop_del [OF True None, of keys cleaned] obtain w where
      "cleanupLoop r js now timeout (key # keys) cleaned =
          cleanupLoop
            (logger_Info (r\<lparr>client := (client r)\<lparr>kv := (kv (client r))(key := None)\<rparr>\<rparr>)
               ''cleaned up stale worker'' w)
            js now timeout keys (Suc cleaned)" by blast
    then show ?thesis
      using None
      by (intro exI [of _ "logger_Info
            (r\<lparr>client := (client r)\<lparr>kv := (kv (client r))(key := None)\<rparr>\<rparr>)
               ''cleaned up stale worker'' w"] exI [of _ "Suc cleaned"])
        auto
  qed
qed

lemma cleanupLoop_logger_mono:
  "set (logger r) \<subseteq> set (logger (snd (cleanupLoop r js now timeout keys cleaned)))"
proof (induction keys arbitrary: r cleaned)
  case Nil
  show ?case by simp
next
  case (Cons key keys)
  from cleanupLoop_step [of r js now timeout key keys cleaned] obtain r1 n1 where
    s: "cleanupLoop r js now timeout (key # keys) cleaned = cleanupLoop r1 js now timeout keys n1"
    and l: "set (logger r) \<subseteq> set (logger r1)" by blast
  from l Cons.IH [of r1 n1] show ?case unfolding s by blast
qed

lemma cleanupLoop_warns:
  assumes "k \<in> set keys" and "client_Get (client r) k = Inr data"
    and "Unmarshal js data = Inr w" and "timeout < time_Since now (LastHeartbeat w)"
    and "delErr (client r) k = Some msg"
  shows "(WarnLevel, ''failed to delete stale worker'', ID w)
           \<in> set (logger (snd (cleanupLoop r js now timeout keys cleaned)))"
  using assms
proof (induction keys arbitrary: r cleaned)
  case Nil
  then show ?case by simp
next
  case (Cons key keys)
  show ?case
  proof (cases "key = k")
    case True
    have s: "cleanupLoop r js now timeout (key # keys) cleaned =
        cleanupLoop (logger_Warn r ''failed to delete stale worker'' (ID w)) js now timeout
          keys cleaned"
      unfolding True
      by (rule cleanupLoop_fail_exact [OF Cons.prems(2) Cons.prems(3) Cons.prems(4) Cons.prems(5)])
    have "(WarnLevel, ''failed to delete stale worker'', ID w)
        \<in> set (logger (logger_Warn r ''failed to delete stale worker'' (ID w)))"
      by simp
    with cleanupLoop_logger_mono
      [of "logger_Warn r ''failed to delete stale worker'' (ID w)" js now timeout keys cleaned]
    show ?thesis unfolding s by blast
  next
    case False
    with Cons.prems(1) have k: "k \<in> set keys" by simp
    from cleanupLoop_step [of r js now timeout key keys cleaned] obtain r1 n1 where
      s: "cleanupLoop r js now timeout (key # keys) cleaned =
          cleanupLoop r1 js now timeout keys n1"
      and c: "client r1 = client r \<or>
            delErr (client r) key = None \<and>
            client r1 = (client r)\<lparr>kv := (kv (client r))(key := None)\<rparr>" by blast
    from c False Cons.prems(2) have g: "client_Get (client r1) k = Inr data"
      by (auto simp: client_Get_deleted)
    from c Cons.prems(5) have d: "delErr (client r1) k = Some msg" by auto
    show ?thesis
      unfolding s by (rule Cons.IH [OF k g Cons.prems(3) Cons.prems(4) d])
  qed
qed

lemma CleanupStaleWorkers_loop:
  assumes "scanKeys r (workerKeyPrefix @ ''*'') = Some (Inr keys)"
  shows "CleanupStaleWorkers r js now timeout =
           Some ((fst (cleanupLoop r js now timeout keys 0), None),
                 snd (cleanupLoop r js now timeout keys 0))"
  using assms by (simp add: CleanupStaleWorkers_def split: prod.split)

lemma fleet_isStale8:
  "isStale (fleetClient\<lparr>delErr := e\<rparr>) fleetCodec 100000000000 8000000000
       ''dago:workers:executor-a''"
  "\<not> isStale (fleetClient\<lparr>delErr := e\<rparr>) fleetCodec 100000000000 8000000000
       ''dago:workers:router-b''"
  "isStale (fleetClient\<lparr>delErr := e\<rparr>) fleetCodec 100000000000 8000000000
       ''dago:workers:executor-c''"
  "isStale (fleetClient\<lparr>delErr := e\<rparr>) fleetCodec 100000000000 8000000000
       ''dago:workers:executor-d''"
  by (simp_all add: isStale_def fleet_Get fleet_Unmarshal fleet_age)

lemma fleet_kv_d:
  "kv fleetClient ''dago:workers:executor-d'' = Some (''json(d)'', 30000000000)"
  by (simp add: fleetClient_def emptyClient_def)

lemma Collect_disj_pair: "{x. x = a \<or> x = b} = {a, b}"
  by auto

text \<open>
  C1, amended. The sweep returns an error only when the scan of the keys fails, and then
  with the count 0. Once the scan has returned, the sweep returns no error, whatever
  deletes fail. It goes on after a failed delete: the keyspace afterwards is the keyspace
  before without every scanned stale key whose delete does not fail, wherever the key
  stands in the scan; a key whose delete fails stays in the keyspace. The count is the
  number of keys that the sweep removed. Every failed delete of a stale record leaves a
  warning with the id of the record in the log.
\<close>

theorem CleanupStaleWorkers_errors:
  "(scanKeys r (workerKeyPrefix @ ''*'') = Some (Inl e) \<longrightarrow>
      CleanupStaleWorkers r js now timeout = Some ((0, Some (FailedToScan e)), r)) \<and>
   (scanKeys r (workerKeyPrefix @ ''*'') = Some (Inr keys) \<longrightarrow>
      (\<exists>r'. CleanupStaleWorkers r js now timeout =
               Some ((card {k. kv (client r) k \<noteq> None \<and> kv (client r') k = None}, None), r') \<and>
             (\<forall>k. kv (client r') k =
                (if k \<in> set keys \<and> isStale (client r) js now timeout k \<and>
                    delErr (client r) k = None
                 then None else kv (client r) k)) \<and>
             (\<forall>k. delErr (client r) k \<noteq> None \<longrightarrow> kv (client r') k = kv (client r) k) \<and>
             (\<forall>k\<in>set keys. \<forall>data w.
                client_Get (client r) k = Inr data \<and> Unmarshal js data = Inr w \<and>
                timeout < time_Since now (LastHeartbeat w) \<and> delErr (client r) k \<noteq> None \<longrightarrow>
                (WarnLevel, ''failed to delete stale worker'', ID w) \<in> set (logger r'))))"
proof (intro conjI impI)
  assume "scanKeys r (workerKeyPrefix @ ''*'') = Some (Inl e)"
  then show "CleanupStaleWorkers r js now timeout = Some ((0, Some (FailedToScan e)), r)"
    by (simp add: CleanupStaleWorkers_def)
next
  assume scan: "scanKeys r (workerKeyPrefix @ ''*'') = Some (Inr keys)"
  define r' where "r' = snd (cleanupLoop r js now timeout keys 0)"
  from cleanupLoop_spec [of r js now timeout keys 0]
  have f: "fst (cleanupLoop r js now timeout keys 0) =
      card {k \<in> set keys. sweeps (client r) js now timeout k}"
    and cl: "client r' = swept (client r) js now timeout keys"
    by (simp_all add: r'_def)
  have n: "{k. kv (client r) k \<noteq> None \<and> kv (client r') k = None} =
      {k \<in> set keys. sweeps (client r) js now timeout k}"
    unfolding cl by (rule removed_keys)
  have c: "CleanupStaleWorkers r js now timeout =
      Some ((card {k. kv (client r) k \<noteq> None \<and> kv (client r') k = None}, None), r')"
  proof -
    have "CleanupStaleWorkers r js now timeout =
        Some ((fst (cleanupLoop r js now timeout keys 0), None), r')"
      unfolding r'_def by (rule CleanupStaleWorkers_loop [OF scan])
    then show ?thesis by (simp only: f n)
  qed
  have k: "kv (client r') k =
      (if k \<in> set keys \<and> isStale (client r) js now timeout k \<and> delErr (client r) k = None
       then None else kv (client r) k)" for k
    by (simp add: cl kv_swept sweeps_def)
  have d: "kv (client r') k = kv (client r) k" if "delErr (client r) k \<noteq> None" for k
    using that by (auto simp: k)
  have w: "(WarnLevel, ''failed to delete stale worker'', ID w) \<in> set (logger r')"
    if "k \<in> set keys" and "client_Get (client r) k = Inr data \<and> Unmarshal js data = Inr w \<and>
        timeout < time_Since now (LastHeartbeat w) \<and> delErr (client r) k \<noteq> None"
    for k data w
  proof -
    from that(2) obtain msg where m: "delErr (client r) k = Some msg" by auto
    from that(2) have g: "client_Get (client r) k = Inr data" and u: "Unmarshal js data = Inr w"
      and a: "timeout < time_Since now (LastHeartbeat w)" by simp_all
    show ?thesis
      unfolding r'_def by (rule cleanupLoop_warns [OF that(1) g u a m])
  qed
  show "\<exists>r'. CleanupStaleWorkers r js now timeout =
               Some ((card {k. kv (client r) k \<noteq> None \<and> kv (client r') k = None}, None), r') \<and>
             (\<forall>k. kv (client r') k =
                (if k \<in> set keys \<and> isStale (client r) js now timeout k \<and>
                    delErr (client r) k = None
                 then None else kv (client r) k)) \<and>
             (\<forall>k. delErr (client r) k \<noteq> None \<longrightarrow> kv (client r') k = kv (client r) k) \<and>
             (\<forall>k\<in>set keys. \<forall>data w.
                client_Get (client r) k = Inr data \<and> Unmarshal js data = Inr w \<and>
                timeout < time_Since now (LastHeartbeat w) \<and> delErr (client r) k \<noteq> None \<longrightarrow>
                (WarnLevel, ''failed to delete stale worker'', ID w) \<in> set (logger r'))"
  proof (intro exI [of _ r'] conjI)
    show "CleanupStaleWorkers r js now timeout =
               Some ((card {k. kv (client r) k \<noteq> None \<and> kv (client r') k = None}, None), r')"
      by (rule c)
    show "\<forall>k. kv (client r') k =
                (if k \<in> set keys \<and> isStale (client r) js now timeout k \<and>
                    delErr (client r) k = None
                 then None else kv (client r) k)"
      by (intro allI) (rule k)
    show "\<forall>k. delErr (client r) k \<noteq> None \<longrightarrow> kv (client r') k = kv (client r) k"
      using d by blast
    show "\<forall>k\<in>set keys. \<forall>data w.
                client_Get (client r) k = Inr data \<and> Unmarshal js data = Inr w \<and>
                timeout < time_Since now (LastHeartbeat w) \<and> delErr (client r) k \<noteq> None \<longrightarrow>
                (WarnLevel, ''failed to delete stale worker'', ID w) \<in> set (logger r')"
      using w by blast
  qed
qed

theorem CleanupStaleWorkers_errors_witness:
  "scanKeys scanFailing (workerKeyPrefix @ ''*'') = Some (Inl (Err ''i/o timeout'')) \<and>
   CleanupStaleWorkers scanFailing fleetCodec 100000000000 8000000000 =
     Some ((0, Some (FailedToScan (Err ''i/o timeout''))), scanFailing) \<and>
   scanKeys fleetFailing (workerKeyPrefix @ ''*'') = Some (Inr fleetKeys) \<and>
   delErr (client fleetFailing) ''dago:workers:executor-c'' \<noteq> None \<and>
   (\<exists>r'. CleanupStaleWorkers fleetFailing fleetCodec 100000000000 8000000000 =
            Some ((2, None), r') \<and>
          kv (client r') ''dago:workers:executor-a'' = None \<and>
          kv (client r') ''dago:workers:executor-c'' = Some (''json(c)'', 30000000000) \<and>
          kv (client r') ''dago:workers:executor-d'' = None \<and>
          (WarnLevel, ''failed to delete stale worker'', ''executor-c'') \<in> set (logger r'))"
proof -
  let ?c = "client fleetFailing"
  have s1: "scanKeys scanFailing (workerKeyPrefix @ ''*'') = Some (Inl (Err ''i/o timeout''))"
    by (rule scanFailing_scanKeys)
  have s2: "scanKeys fleetFailing (workerKeyPrefix @ ''*'') = Some (Inr fleetKeys)"
    by (rule fleetFailing_scanKeys)
  have d: "delErr ?c ''dago:workers:executor-c'' \<noteq> None"
    by (simp add: fleetFailing_client)
  note E = CleanupStaleWorkers_errors [of scanFailing "Err ''i/o timeout''" fleetCodec
      100000000000 8000000000, THEN conjunct1, rule_format, OF s1]
  note F = CleanupStaleWorkers_errors [of fleetFailing _ fleetCodec 100000000000 8000000000
      fleetKeys, THEN conjunct2, rule_format, OF s2]
  from F obtain r' where
    c: "CleanupStaleWorkers fleetFailing fleetCodec 100000000000 8000000000 =
          Some ((card {k. kv ?c k \<noteq> None \<and> kv (client r') k = None}, None), r')"
    and k: "\<forall>k. kv (client r') k =
          (if k \<in> set fleetKeys \<and> isStale ?c fleetCodec 100000000000 8000000000 k \<and>
              delErr ?c k = None
           then None else kv ?c k)"
    and w: "\<forall>k\<in>set fleetKeys. \<forall>data w.
          client_Get ?c k = Inr data \<and> Unmarshal fleetCodec data = Inr w \<and>
          8000000000 < time_Since 100000000000 (LastHeartbeat w) \<and> delErr ?c k \<noteq> None \<longrightarrow>
          (WarnLevel, ''failed to delete stale worker'', ID w) \<in> set (logger r')"
    by blast
  have ka: "kv (client r') ''dago:workers:executor-a'' = None"
    by (simp add: k [rule_format] fleetKeys_def fleetFailing_client fleet_isStale8)
  have kc: "kv (client r') ''dago:workers:executor-c'' = Some (''json(c)'', 30000000000)"
    by (simp add: k [rule_format] fleetFailing_client fleet_kv)
  have kd: "kv (client r') ''dago:workers:executor-d'' = None"
    by (simp add: k [rule_format] fleetKeys_def fleetFailing_client fleet_isStale8)
  have mem: "kv ?c x \<noteq> None \<and> kv (client r') x = None \<longleftrightarrow>
      x = ''dago:workers:executor-a'' \<or> x = ''dago:workers:executor-d''" for x
  proof (cases "x \<in> set fleetKeys")
    case False
    then have "kv (client r') x = kv ?c x" by (simp add: k [rule_format])
    with False show ?thesis by (auto simp: fleetKeys_def)
  next
    case True
    then consider "x = ''dago:workers:executor-a''" | "x = ''dago:workers:router-b''"
      | "x = ''dago:workers:executor-c''" | "x = ''dago:workers:executor-d''"
      by (auto simp: fleetKeys_def)
    then show ?thesis
    proof cases
      case 1
      show ?thesis unfolding 1 by (simp add: ka fleetFailing_client fleet_kv)
    next
      case 2
      have "kv (client r') ''dago:workers:router-b'' = kv ?c ''dago:workers:router-b''"
        by (simp add: k [rule_format] fleetFailing_client fleet_isStale8)
      then show ?thesis unfolding 2 by auto
    next
      case 3
      show ?thesis unfolding 3 by (simp add: kc)
    next
      case 4
      show ?thesis unfolding 4 by (simp add: kd fleetFailing_client fleet_kv_d)
    qed
  qed
  have "{k. kv ?c k \<noteq> None \<and> kv (client r') k = None} =
      {x. x = ''dago:workers:executor-a'' \<or> x = ''dago:workers:executor-d''}"
    by (rule Collect_cong) (rule mem)
  also have "\<dots> = {''dago:workers:executor-a'', ''dago:workers:executor-d''}"
    by (rule Collect_disj_pair)
  finally have "card {k. kv ?c k \<noteq> None \<and> kv (client r') k = None} = 2" by simp
  with c have z: "CleanupStaleWorkers fleetFailing fleetCodec 100000000000 8000000000 =
      Some ((2, None), r')" by simp
  have "client_Get ?c ''dago:workers:executor-c'' = Inr ''json(c)'' \<and>
      Unmarshal fleetCodec ''json(c)'' = Inr workerC \<and>
      8000000000 < time_Since 100000000000 (LastHeartbeat workerC) \<and>
      delErr ?c ''dago:workers:executor-c'' \<noteq> None"
    by (simp add: fleetFailing_client fleet_Get fleet_Unmarshal fleet_age)
  moreover have "''dago:workers:executor-c'' \<in> set fleetKeys" by (simp add: fleetKeys_def)
  ultimately have "(WarnLevel, ''failed to delete stale worker'', ID workerC) \<in> set (logger r')"
    using w by blast
  then have l: "(WarnLevel, ''failed to delete stale worker'', ''executor-c'') \<in> set (logger r')"
    by (simp add: fleet_ID)
  show ?thesis
    by (intro conjI exI [of _ r']) (rule s1 E s2 d z ka kc kd l)+
qed

subsection \<open>ListWorkers\<close>

lemma typeMatch_iff: "typeMatch wt ts \<longleftrightarrow> wt \<in> set ts"
  by (induction ts) auto

lemma statusMatch_iff: "statusMatch ws ss \<longleftrightarrow> ws \<in> set ss"
  by (induction ss) auto

lemma matchesFilter_iff:
  "matchesFilter worker flt isHealthy \<longleftrightarrow>
     (Types flt = [] \<or> Type worker \<in> set (Types flt)) \<and>
     (Statuses flt = [] \<or> Status worker \<in> set (Statuses flt)) \<and>
     (HealthyOnly flt \<longrightarrow> isHealthy)"
  by (auto simp: matchesFilter_def typeMatch_iff statusMatch_iff)

lemma listEntry_logger_Warn [simp]:
  "listEntry (logger_Warn r msg field) js now flt key = listEntry r js now flt key"
  by (simp add: listEntry_def split: sum.split)

lemma listLoop_step:
  "\<exists>r1. listLoop r js now flt (key # keys) workers =
          listLoop r1 js now flt keys
            (case listEntry r js now flt key of None \<Rightarrow> workers | Some w \<Rightarrow> workers @ [w]) \<and>
        client r1 = client r \<and> ttl r1 = ttl r"
proof (cases "client_Get (client r) key")
  case (Inl e)
  show ?thesis
  proof (cases "e = redis_Nil")
    case True
    with Inl show ?thesis by (intro exI [of _ r]) (simp add: listEntry_def)
  next
    case False
    with Inl show ?thesis
      by (intro exI [of _ "logger_Warn r ''failed to get worker'' key"])
        (simp add: listEntry_def)
  qed
next
  case (Inr data)
  show ?thesis
  proof (cases "Unmarshal js data")
    case (Inl e)
    with Inr show ?thesis
      by (intro exI [of _ "logger_Warn r ''failed to unmarshal worker'' key"])
        (simp add: listEntry_def)
  next
    case u: (Inr w)
    with Inr show ?thesis
      by (intro exI [of _ r]) (simp add: listEntry_def Let_def)
  qed
qed

lemma listEntry_cong:
  "client r1 = client r \<Longrightarrow> ttl r1 = ttl r \<Longrightarrow>
   listEntry r1 js now flt = listEntry r js now flt"
  by (simp add: listEntry_def fun_eq_iff split: sum.split)

lemma listLoop_spec:
  "fst (listLoop r js now flt keys workers) =
     workers @ List.map_filter (listEntry r js now flt) keys \<and>
   client (snd (listLoop r js now flt keys workers)) = client r \<and>
   ttl (snd (listLoop r js now flt keys workers)) = ttl r"
proof (induction keys arbitrary: r workers)
  case Nil
  show ?case by simp
next
  case (Cons key keys)
  from listLoop_step [of r js now flt key keys workers] obtain r1 where
    s: "listLoop r js now flt (key # keys) workers =
          listLoop r1 js now flt keys
            (case listEntry r js now flt key of None \<Rightarrow> workers | Some w \<Rightarrow> workers @ [w])"
    and c: "client r1 = client r" and t: "ttl r1 = ttl r" by blast
  show ?case
    unfolding s
    using Cons.IH [of r1
        "case listEntry r js now flt key of None \<Rightarrow> workers | Some w \<Rightarrow> workers @ [w]"]
    by (simp add: c t listEntry_cong [OF c t] split: option.split)
qed

lemma set_map_filter: "set (List.map_filter f xs) = {y. \<exists>x\<in>set xs. f x = Some y}"
  by (induction xs) (auto split: option.splits)

lemma listEntry_Some_iff:
  "listEntry r js now flt key = Some w \<longleftrightarrow>
     (\<exists>data worker. client_Get (client r) key = Inr data \<and> Unmarshal js data = Inr worker \<and>
        w = (if time_Since now (LastHeartbeat worker) \<le> ttl r then worker
             else worker\<lparr>Status := WorkerStatusUnhealthy\<rparr>) \<and>
        (Types flt = [] \<or> Type worker \<in> set (Types flt)) \<and>
        (Statuses flt = [] \<or> Status w \<in> set (Statuses flt)) \<and>
        (HealthyOnly flt \<longrightarrow> time_Since now (LastHeartbeat worker) \<le> ttl r))"
proof (cases "client_Get (client r) key")
  case (Inl e)
  then show ?thesis by (simp add: listEntry_def)
next
  case (Inr data)
  show ?thesis
  proof (cases "Unmarshal js data")
    case (Inl e)
    with Inr show ?thesis by (simp add: listEntry_def)
  next
    case u: (Inr worker)
    show ?thesis
    proof (cases "time_Since now (LastHeartbeat worker) \<le> ttl r")
      case True
      with Inr u show ?thesis by (auto simp: listEntry_def matchesFilter_iff)
    next
      case False
      with Inr u show ?thesis by (auto simp: listEntry_def matchesFilter_iff)
    qed
  qed
qed

lemma ListWorkers_result:
  assumes "scanKeys r (workerKeyPrefix @ ''*'') = Some (Inr keys)"
  shows "\<exists>r'. ListWorkers r js now flt =
            Some (Inr (List.map_filter (listEntry r js now flt) keys), r') \<and>
          client r' = client r \<and> ttl r' = ttl r"
proof -
  obtain ws r' where l: "listLoop r js now flt keys [] = (ws, r')"
    by (cases "listLoop r js now flt keys []")
  from listLoop_spec [of r js now flt keys "[]"] l
  have "ws = List.map_filter (listEntry r js now flt) keys"
    and "client r' = client r" and "ttl r' = ttl r" by simp_all
  with assms l show ?thesis by (simp add: ListWorkers_def)
qed

lemma fleet_fields:
  "Type workerA = WorkerTypeExecutor" "Type workerB = WorkerTypeRouter"
  "Type workerC = WorkerTypeExecutor" "Type workerD = WorkerTypeExecutor"
  "Status workerA = WorkerStatusIdle" "Status workerB = WorkerStatusBusy"
  "Status workerC = WorkerStatusBusy" "Status workerD = WorkerStatusBusy"
  "PendingTasks workerA = 2" "PendingTasks workerB = 3"
  "PendingTasks workerC = 5" "PendingTasks workerD = 0"
  by (simp_all add: workerA_def workerB_def workerC_def workerD_def)

lemma fleet_ttl: "ttl fleet = 30000000000"
  by (simp add: fleet_def NewRegistry_def defaultWorkerTTL_def Second_def)

lemma fleet_list_healthy:
  "ListWorkers fleet fleetCodec 100000000000
     \<lparr>Types = [WorkerTypeExecutor], Statuses = [], HealthyOnly = True\<rparr> =
   Some (Inr [workerA, workerD], fleet)"
  by (simp add: ListWorkers_def fleet_scanKeys fleetKeys_def fleet_client fleet_Get
      fleet_Unmarshal fleet_age fleet_ttl matchesFilter_def fleet_fields)

lemma fleet_list_executors:
  "ListWorkers fleet fleetCodec 100000000000
     \<lparr>Types = [WorkerTypeExecutor], Statuses = [], HealthyOnly = False\<rparr> =
   Some (Inr [workerA, workerC\<lparr>Status := WorkerStatusUnhealthy\<rparr>, workerD], fleet)"
  by (simp add: ListWorkers_def fleet_scanKeys fleetKeys_def fleet_client fleet_Get
      fleet_Unmarshal fleet_age fleet_ttl matchesFilter_def fleet_fields)

text \<open>
  C7. When the scan returns the keys, \<open>ListWorkers\<close> returns a list, and leaves the
  client as it was. A record is in the list if and only if it is the decoded record of
  one of the keys, with the status recomputed from the heartbeat age, such that the
  type set of the filter is empty or holds its type, the status set of the filter is
  empty or holds its recomputed status, and, when the filter asks for healthy workers
  only, its heartbeat age does not exceed the TTL.
\<close>

theorem ListWorkers_filter:
  assumes "scanKeys r (workerKeyPrefix @ ''*'') = Some (Inr keys)"
  shows "\<exists>workers r'. ListWorkers r js now flt = Some (Inr workers, r') \<and>
     client r' = client r \<and>
     (\<forall>w. w \<in> set workers \<longleftrightarrow>
        (\<exists>key\<in>set keys. \<exists>data worker.
           client_Get (client r) key = Inr data \<and> Unmarshal js data = Inr worker \<and>
           w = (if time_Since now (LastHeartbeat worker) \<le> ttl r then worker
                else worker\<lparr>Status := WorkerStatusUnhealthy\<rparr>) \<and>
           (Types flt = [] \<or> Type worker \<in> set (Types flt)) \<and>
           (Statuses flt = [] \<or> Status w \<in> set (Statuses flt)) \<and>
           (HealthyOnly flt \<longrightarrow> time_Since now (LastHeartbeat worker) \<le> ttl r)))"
proof -
  from ListWorkers_result [OF assms, of js now flt] obtain r' where
    l: "ListWorkers r js now flt =
          Some (Inr (List.map_filter (listEntry r js now flt) keys), r')"
    and c: "client r' = client r" by blast
  have "w \<in> set (List.map_filter (listEntry r js now flt) keys) \<longleftrightarrow>
      (\<exists>key\<in>set keys. listEntry r js now flt key = Some w)" for w
    by (simp add: set_map_filter)
  then show ?thesis
    using l c unfolding listEntry_Some_iff by blast
qed

theorem ListWorkers_filter_witness:
  "scanKeys fleet (workerKeyPrefix @ ''*'') = Some (Inr fleetKeys) \<and>
   ListWorkers fleet fleetCodec 100000000000
     \<lparr>Types = [WorkerTypeExecutor], Statuses = [], HealthyOnly = True\<rparr> =
     Some (Inr [workerA, workerD], fleet) \<and>
   (\<exists>workers r'.
      ListWorkers fleet fleetCodec 100000000000
        \<lparr>Types = [WorkerTypeExecutor], Statuses = [], HealthyOnly = True\<rparr> =
        Some (Inr workers, r') \<and>
      client r' = client fleet \<and> workerA \<in> set workers)"
proof -
  let ?flt = "\<lparr>Types = [WorkerTypeExecutor], Statuses = [], HealthyOnly = True\<rparr>"
  have scan: "scanKeys fleet (workerKeyPrefix @ ''*'') = Some (Inr fleetKeys)"
    by (rule fleet_scanKeys)
  from ListWorkers_filter [OF scan, of fleetCodec 100000000000 ?flt]
  obtain workers r' where l: "ListWorkers fleet fleetCodec 100000000000 ?flt =
      Some (Inr workers, r')"
    and c: "client r' = client fleet"
    and m: "\<forall>w. w \<in> set workers \<longleftrightarrow>
      (\<exists>key\<in>set fleetKeys. \<exists>data worker.
         client_Get (client fleet) key = Inr data \<and> Unmarshal fleetCodec data = Inr worker \<and>
         w = (if time_Since 100000000000 (LastHeartbeat worker) \<le> ttl fleet then worker
              else worker\<lparr>Status := WorkerStatusUnhealthy\<rparr>) \<and>
         (Types ?flt = [] \<or> Type worker \<in> set (Types ?flt)) \<and>
         (Statuses ?flt = [] \<or> Status w \<in> set (Statuses ?flt)) \<and>
         (HealthyOnly ?flt \<longrightarrow> time_Since 100000000000 (LastHeartbeat worker) \<le> ttl fleet))"
    by blast
  have k: "''dago:workers:executor-a'' \<in> set fleetKeys" by (simp add: fleetKeys_def)
  have "client_Get (client fleet) ''dago:workers:executor-a'' = Inr ''json(a)'' \<and>
      Unmarshal fleetCodec ''json(a)'' = Inr workerA \<and>
      workerA = (if time_Since 100000000000 (LastHeartbeat workerA) \<le> ttl fleet then workerA
              else workerA\<lparr>Status := WorkerStatusUnhealthy\<rparr>) \<and>
      (Types ?flt = [] \<or> Type workerA \<in> set (Types ?flt)) \<and>
      (Statuses ?flt = [] \<or> Status workerA \<in> set (Statuses ?flt)) \<and>
      (HealthyOnly ?flt \<longrightarrow> time_Since 100000000000 (LastHeartbeat workerA) \<le> ttl fleet)"
    by (simp add: fleet_client fleet_Get fleet_Unmarshal fleet_age fleet_ttl fleet_fields)
  with k m have a: "workerA \<in> set workers" by blast
  from scan fleet_list_healthy l c a show ?thesis by blast
qed

subsection \<open>GetWorkerStats\<close>

lemma statsLoop_spec:
  "statsLoop workers stats =
     stats\<lparr>IdleWorkers :=
             IdleWorkers stats + length (filter (\<lambda>w. Status w = WorkerStatusIdle) workers),
           BusyWorkers :=
             BusyWorkers stats + length (filter (\<lambda>w. Status w = WorkerStatusBusy) workers),
           UnhealthyWorkers :=
             UnhealthyWorkers stats +
             length (filter (\<lambda>w. Status w = WorkerStatusUnhealthy) workers),
           TotalPendingTasks := TotalPendingTasks stats + sum_list (map PendingTasks workers)\<rparr>"
proof (induction workers arbitrary: stats)
  case Nil
  show ?case by simp
next
  case (Cons worker workers)
  show ?case
    by (cases "Status worker") (simp_all add: Cons.IH Let_def add.assoc)
qed

lemma sum_list_sint:
  "sum_list (map f xs) = (word_of_int (\<Sum>x\<leftarrow>xs. sint (f x)) :: 64 word)"
  by (induction xs) simp_all

lemma sint_sum_list:
  assumes "- (2 ^ 63) \<le> (\<Sum>x\<leftarrow>xs. sint (f x :: 64 word))"
    and "(\<Sum>x\<leftarrow>xs. sint (f x)) < 2 ^ 63"
  shows "sint (sum_list (map f xs)) = (\<Sum>x\<leftarrow>xs. sint (f x))"
proof -
  have "sint (sum_list (map f xs)) = signed_take_bit 63 (\<Sum>x\<leftarrow>xs. sint (f x))"
    by (simp add: sum_list_sint [of f xs] signed_of_int)
  also have "\<dots> = (\<Sum>x\<leftarrow>xs. sint (f x))"
    using assms by (rule signed_take_bit_int_eq_self)
  finally show ?thesis .
qed

text \<open>
  C8. \<open>GetWorkerStats\<close> is the aggregation of the result of \<open>ListWorkers\<close> under the
  filter of the one type: it returns what the listing returns when that is no list, and
  otherwise, with the registry as the listing left it, the number of listed records,
  the numbers of those with the status Idle, Busy and Unhealthy, and the sum of their
  pending counts. The sum is a sum of 64-bit words; it is the sum of the signed values
  whenever that fits into 64 bits.
\<close>

theorem GetWorkerStats_aggregates:
  "(ListWorkers r js now \<lparr>Types = [workerType], Statuses = [], HealthyOnly = False\<rparr> = None \<longrightarrow>
      GetWorkerStats r js now workerType = None) \<and>
   (\<forall>e r'. ListWorkers r js now \<lparr>Types = [workerType], Statuses = [], HealthyOnly = False\<rparr> =
              Some (Inl e, r') \<longrightarrow>
      GetWorkerStats r js now workerType = Some (Inl e, r')) \<and>
   (\<forall>workers r'.
      ListWorkers r js now \<lparr>Types = [workerType], Statuses = [], HealthyOnly = False\<rparr> =
        Some (Inr workers, r') \<longrightarrow>
      GetWorkerStats r js now workerType =
        Some (Inr \<lparr>StatsType = workerType, TotalWorkers = length workers,
                   IdleWorkers = length (filter (\<lambda>w. Status w = WorkerStatusIdle) workers),
                   BusyWorkers = length (filter (\<lambda>w. Status w = WorkerStatusBusy) workers),
                   UnhealthyWorkers =
                     length (filter (\<lambda>w. Status w = WorkerStatusUnhealthy) workers),
                   TotalPendingTasks = sum_list (map PendingTasks workers)\<rparr>, r') \<and>
      (- (2 ^ 63) \<le> (\<Sum>w\<leftarrow>workers. sint (PendingTasks w)) \<and>
       (\<Sum>w\<leftarrow>workers. sint (PendingTasks w)) < 2 ^ 63 \<longrightarrow>
         sint (sum_list (map PendingTasks workers)) = (\<Sum>w\<leftarrow>workers. sint (PendingTasks w))))"
proof (intro conjI allI impI)
  assume "ListWorkers r js now \<lparr>Types = [workerType], Statuses = [], HealthyOnly = False\<rparr> = None"
  then show "GetWorkerStats r js now workerType = None"
    by (simp add: GetWorkerStats_def)
next
  fix e r'
  assume "ListWorkers r js now \<lparr>Types = [workerType], Statuses = [], HealthyOnly = False\<rparr> =
      Some (Inl e, r')"
  then show "GetWorkerStats r js now workerType = Some (Inl e, r')"
    by (simp add: GetWorkerStats_def)
next
  fix workers r'
  assume "ListWorkers r js now \<lparr>Types = [workerType], Statuses = [], HealthyOnly = False\<rparr> =
      Some (Inr workers, r')"
  then show "GetWorkerStats r js now workerType =
        Some (Inr \<lparr>StatsType = workerType, TotalWorkers = length workers,
                   IdleWorkers = length (filter (\<lambda>w. Status w = WorkerStatusIdle) workers),
                   BusyWorkers = length (filter (\<lambda>w. Status w = WorkerStatusBusy) workers),
                   UnhealthyWorkers =
                     length (filter (\<lambda>w. Status w = WorkerStatusUnhealthy) workers),
                   TotalPendingTasks = sum_list (map PendingTasks workers)\<rparr>, r')"
    by (simp add: GetWorkerStats_def statsLoop_spec)
next
  fix workers :: "WorkerInfo list"
  assume "- (2 ^ 63) \<le> (\<Sum>w\<leftarrow>workers. sint (PendingTasks w)) \<and>
       (\<Sum>w\<leftarrow>workers. sint (PendingTasks w)) < 2 ^ 63"
  then show "sint (sum_list (map PendingTasks workers)) =
      (\<Sum>w\<leftarrow>workers. sint (PendingTasks w))"
    by (simp add: sint_sum_list)
qed

theorem GetWorkerStats_aggregates_witness:
  "ListWorkers fleet fleetCodec 100000000000
     \<lparr>Types = [WorkerTypeExecutor], Statuses = [], HealthyOnly = False\<rparr> =
     Some (Inr [workerA, workerC\<lparr>Status := WorkerStatusUnhealthy\<rparr>, workerD], fleet) \<and>
   GetWorkerStats fleet fleetCodec 100000000000 WorkerTypeExecutor =
     Some (Inr \<lparr>StatsType = WorkerTypeExecutor, TotalWorkers = 3, IdleWorkers = 1,
                BusyWorkers = 1, UnhealthyWorkers = 1, TotalPendingTasks = 7\<rparr>, fleet) \<and>
   sint (TotalPendingTasks
           \<lparr>StatsType = WorkerTypeExecutor, TotalWorkers = 3, IdleWorkers = 1,
             BusyWorkers = 1, UnhealthyWorkers = 1, TotalPendingTasks = 7\<rparr>) = 7"
proof -
  let ?ws = "[workerA, workerC\<lparr>Status := WorkerStatusUnhealthy\<rparr>, workerD]"
  note G = GetWorkerStats_aggregates [of fleet fleetCodec 100000000000 WorkerTypeExecutor,
      THEN conjunct2, THEN conjunct2, rule_format, OF fleet_list_executors]
  have s: "(\<Sum>w\<leftarrow>?ws. sint (PendingTasks w)) = 7"
    by (simp add: fleet_fields)
  have 1: "GetWorkerStats fleet fleetCodec 100000000000 WorkerTypeExecutor =
     Some (Inr \<lparr>StatsType = WorkerTypeExecutor, TotalWorkers = 3, IdleWorkers = 1,
                BusyWorkers = 1, UnhealthyWorkers = 1, TotalPendingTasks = 7\<rparr>, fleet)"
    using G [THEN conjunct1] by (simp add: fleet_fields)
  have 2: "sint (sum_list (map PendingTasks ?ws)) = 7"
    using G [THEN conjunct2] s by simp
  then have 3: "sint (7 :: 64 word) = 7" by (simp add: fleet_fields)
  from fleet_list_executors 1 3 show ?thesis by simp
qed

end
